theory Spec2Isabelle
  imports Main "HOL-Library.Word"
begin

section \<open>The Envoy external-authorization plugin (internal/internal.go)\<close>

text \<open>
  A shallow embedding of \<^verbatim>\<open>internal/internal.go\<close>: configuration validation and
  entry-point resolution, the per-call decision pipeline \<^verbatim>\<open>check\<close> with its
  finalisation closure \<^verbatim>\<open>stop\<close>, the two service entry points, and the
  translation of a v3 response into the legacy v2 shape.

  Functions of other packages (the policy engine, the store, the decision logger, the
  accessors of the evaluation result) are parameters of the model: a record of functions
  giving, for each call the source makes, the values that call returns.
\<close>

subsection \<open>Errors\<close>

text \<open>A Go \<^verbatim>\<open>error\<close> is identified with the text that \<^verbatim>\<open>Error()\<close> returns.\<close>

datatype error = Err string

fun Error :: "error \<Rightarrow> string" where
  "Error (Err m) = m"

text \<open>\<^verbatim>\<open>errors.Wrap(err, msg)\<close> of pkg/errors: the message becomes \<^verbatim>\<open>msg: err\<close>.\<close>

definition Wrap :: "error \<Rightarrow> string \<Rightarrow> error" where
  "Wrap e msg = Err (msg @ '': '' @ Error e)"

subsection \<open>Untyped values\<close>

text \<open>
  A Go \<^verbatim>\<open>interface{}\<close> holding decoded JSON: the decision of the policy, the
  input document, dynamic metadata. \<^verbatim>\<open>JObj\<close> is \<^verbatim>\<open>map[string]interface{}\<close>.
\<close>

datatype json =
    JNull
  | JBool bool
  | JNum int
  | JStr string
  | JArr "json list"
  | JObj "(string \<times> json) list"

subsection \<open>Entry-point references\<close>

datatype Term = VarTerm string | StringTerm string | IntNumberTerm int

type_synonym Ref = "Term list"

definition DefaultRootDocument :: Term where
  "DefaultRootDocument = VarTerm ''data''"

definition defaultAddr :: string where
  "defaultAddr = '':9191''"

definition defaultPath :: string where
  "defaultPath = ''envoy/authz/allow''"

definition defaultDryRun :: bool where
  "defaultDryRun = False"

definition defaultEnableReflection :: bool where
  "defaultEnableReflection = False"

definition defaultSkipRequestBodyParse :: bool where
  "defaultSkipRequestBodyParse = False"

definition defaultEnablePerformanceMetrics :: bool where
  "defaultEnablePerformanceMetrics = False"

definition defaultGRPCServerMaxReceiveMessageSize :: int where
  "defaultGRPCServerMaxReceiveMessageSize = 1024 * 1024 * 4"

definition defaultGRPCServerMaxSendMessageSize :: int where
  "defaultGRPCServerMaxSendMessageSize = 2147483647"

subsubsection \<open>The standard-library calls of \<^verbatim>\<open>stringPathToRef\<close>\<close>

text \<open>
  \<^verbatim>\<open>strings.Split(s, "/")\<close>: the pieces of \<^verbatim>\<open>s\<close> between the slashes; a string
  with \<open>n\<close> slashes has \<open>n + 1\<close> pieces, some of them possibly empty.
\<close>

fun Split :: "string \<Rightarrow> string list" where
  "Split [] = [[]]"
| "Split (c # cs) =
     (if c = CHR ''/'' then [] # Split cs
      else (case Split cs of
              [] \<Rightarrow> [[c]]
            | x # xs \<Rightarrow> (c # x) # xs))"

text \<open>
  \<^verbatim>\<open>strconv.Atoi\<close>: an optional sign, then one or more decimal digits, and the
  value must fit the platform's \<^verbatim>\<open>int\<close> (64 bits); anything else is an error
  (\<open>None\<close>), a value out of range included.
\<close>

definition is_digit :: "char \<Rightarrow> bool" where
  "is_digit c = (48 \<le> (of_char c :: nat) \<and> (of_char c :: nat) \<le> 57)"

definition digit_val :: "char \<Rightarrow> int" where
  "digit_val c = int (of_char c) - 48"

fun digits_val :: "int \<Rightarrow> string \<Rightarrow> int option" where
  "digits_val n [] = Some n"
| "digits_val n (c # cs) =
     (if is_digit c then digits_val (n * 10 + digit_val c) cs else None)"

definition intSize :: nat where
  "intSize = 64"

definition Atoi :: "string \<Rightarrow> int option" where
  "Atoi s =
     (case s of
        [] \<Rightarrow> None
      | c # cs \<Rightarrow>
          (let ds = (if c = CHR ''-'' \<or> c = CHR ''+'' then cs else s) in
           if ds = [] then None
           else (case digits_val 0 ds of
                   None \<Rightarrow> None
                 | Some n \<Rightarrow>
                     (let v = (if c = CHR ''-'' then - n else n) in
                      if - (2 ^ (intSize - 1)) \<le> v \<and> v \<le> 2 ^ (intSize - 1) - 1
                      then Some v else None))))"

subsubsection \<open>\<^verbatim>\<open>stringPathToRef\<close> and \<^verbatim>\<open>stringPathToDataRef\<close>\<close>

text \<open>One segment of the path: the body of the loop after the \<^verbatim>\<open>continue\<close>.\<close>

definition segTerm :: "string \<Rightarrow> Term" where
  "segTerm x = (case Atoi x of None \<Rightarrow> StringTerm x | Some i \<Rightarrow> IntNumberTerm i)"

text \<open>The loop \<^verbatim>\<open>for _, x := range p\<close>, with the reference \<^verbatim>\<open>r\<close> built so far.\<close>

fun pathLoop :: "Ref \<Rightarrow> string list \<Rightarrow> Ref" where
  "pathLoop r [] = r"
| "pathLoop r (x # p) =
     (if x = [] then pathLoop r p
      else pathLoop (r @ [segTerm x]) p)"

definition stringPathToRef :: "string \<Rightarrow> Ref" where
  "stringPathToRef s =
     (if length s = 0 then []
      else pathLoop [] (Split s))"

definition stringPathToDataRef :: "string \<Rightarrow> Ref" where
  "stringPathToDataRef s = [DefaultRootDocument] @ stringPathToRef s"

subsection \<open>Configuration\<close>

text \<open>
  \<open>'q\<close> is \<^verbatim>\<open>ast.Body\<close>, a parsed query; \<open>'ps\<close> is the registry of protobuf
  descriptors. Both come from other packages and stay abstract.
\<close>

record ('q, 'ps) Config =
  Addr :: string
  Query :: string
  Path :: string
  DryRun :: bool
  EnableReflection :: bool
  parsedQuery :: "'q option"
  ProtoDescriptor :: string
  protoSet :: "'ps option"
  GRPCMaxRecvMsgSize :: int
  GRPCMaxSendMsgSize :: int
  SkipRequestBodyParse :: bool
  EnablePerformanceMetrics :: bool

text \<open>
  What \<^verbatim>\<open>Validate\<close> calls in other packages: \<^verbatim>\<open>util.Unmarshal\<close> (overlaying
  the decoded bytes on the defaults), \<^verbatim>\<open>ast.ParseBody\<close>, \<^verbatim>\<open>ast.Ref.String\<close> and
  \<^verbatim>\<open>internal_util.ReadProtoSet\<close>.
\<close>

record ('q, 'ps) validate_deps =
  Unmarshal :: "string \<Rightarrow> ('q, 'ps) Config \<Rightarrow> error + ('q, 'ps) Config"
  ParseBody :: "string \<Rightarrow> error + 'q"
  Ref_String :: "Ref \<Rightarrow> string"
  ReadProtoSet :: "string \<Rightarrow> error + 'ps"

definition initialConfig :: "('q, 'ps) Config" where
  "initialConfig =
     \<lparr> Addr = defaultAddr,
       Query = [],
       Path = [],
       DryRun = defaultDryRun,
       EnableReflection = defaultEnableReflection,
       parsedQuery = None,
       ProtoDescriptor = [],
       protoSet = None,
       GRPCMaxRecvMsgSize = defaultGRPCServerMaxReceiveMessageSize,
       GRPCMaxSendMsgSize = defaultGRPCServerMaxSendMessageSize,
       SkipRequestBodyParse = defaultSkipRequestBodyParse,
       EnablePerformanceMetrics = defaultEnablePerformanceMetrics \<rparr>"

definition bothSetError :: error where
  "bothSetError =
     Err (''invalid config: specify a value for only the '' @ [CHR 0x22] @ ''path''
          @ [CHR 0x22] @ '' field'')"

text \<open>
  Lines 91 to 103 of \<^verbatim>\<open>Validate\<close>: the configuration, with its path defaulted
  when the path is consulted and empty, and the outcome of parsing the entry point.
\<close>

definition parseEntryPoint ::
  "('q, 'ps) validate_deps \<Rightarrow> ('q, 'ps) Config \<Rightarrow> ('q, 'ps) Config \<times> (error + 'q)" where
  "parseEntryPoint deps cfg =
     (if Query cfg \<noteq> [] then (cfg, ParseBody deps (Query cfg))
      else
        (let cfg1 = (if Path cfg = [] then cfg\<lparr>Path := defaultPath\<rparr> else cfg);
             path = stringPathToDataRef (Path cfg1)
         in (cfg1, ParseBody deps (Ref_String deps path))))"

definition Validate ::
  "('q, 'ps) validate_deps \<Rightarrow> string \<Rightarrow> error + ('q, 'ps) Config" where
  "Validate deps bs =
     (case Unmarshal deps bs initialConfig of
        Inl err \<Rightarrow> Inl err
      | Inr cfg \<Rightarrow>
          if Path cfg \<noteq> [] \<and> Query cfg \<noteq> [] then Inl bothSetError
          else
            (case parseEntryPoint deps cfg of
               (cfg1, Inl err) \<Rightarrow> Inl err
             | (cfg1, Inr q) \<Rightarrow>
                 (let cfg2 = cfg1\<lparr>parsedQuery := Some q\<rparr> in
                  if ProtoDescriptor cfg2 \<noteq> [] then
                    (case ReadProtoSet deps (ProtoDescriptor cfg2) of
                       Inl err \<Rightarrow> Inl err
                     | Inr ps \<Rightarrow> Inr (cfg2\<lparr>protoSet := Some ps\<rparr>))
                  else Inr cfg2)))"

subsection \<open>Wire messages\<close>

text \<open>
  \<^verbatim>\<open>rpc_status.Status\<close>, shared by both versions of the protocol, with the three
  codes of \<^verbatim>\<open>google.golang.org/genproto/googleapis/rpc/code\<close> that the file uses.
\<close>

record rpc_Status =
  Code :: "32 word"
  Message :: string

definition Code_OK :: "32 word" where
  "Code_OK = 0"

definition Code_UNKNOWN :: "32 word" where
  "Code_UNKNOWN = 2"

definition Code_PERMISSION_DENIED :: "32 word" where
  "Code_PERMISSION_DENIED = 7"

text \<open>
  The v3 messages. A field that is a pointer in Go is an \<open>option\<close>, \<open>None\<close> for
  \<^verbatim>\<open>nil\<close>. The elements of a header list are taken non-nil: a nil element and an
  element whose \<^verbatim>\<open>Header\<close> is nil behave alike in this file.
\<close>

record HeaderValue_v3 =
  Key :: string
  Value :: string

record HeaderValueOption_v3 =
  Header :: "HeaderValue_v3 option"
  Append :: "bool option"

record HttpStatus_v3 =
  HttpCode :: "32 word"

record OkHttpResponse_v3 =
  Headers :: "HeaderValueOption_v3 list"
  HeadersToRemove :: "string list"
  ResponseHeadersToAdd :: "HeaderValueOption_v3 list"

record DeniedHttpResponse_v3 =
  DeniedStatus :: "HttpStatus_v3 option"
  DeniedHeaders :: "HeaderValueOption_v3 list"
  Body :: string

datatype HttpResponse_v3 =
    NoHttpResponse
  | OkResponse "OkHttpResponse_v3 option"
  | DeniedResponse "DeniedHttpResponse_v3 option"

record CheckResponse_v3 =
  Status :: "rpc_Status option"
  HttpResponse :: HttpResponse_v3
  DynamicMetadata :: "json option"

text \<open>
  The v2 messages. The v2 allow branch has a header list and nothing else: it has no
  field for headers to remove or for headers to add to the response.
\<close>

record HeaderValue_v2 =
  Key_v2 :: string
  Value_v2 :: string

record HeaderValueOption_v2 =
  Header_v2 :: "HeaderValue_v2 option"
  Append_v2 :: "bool option"

record HttpStatus_v2 =
  HttpCode_v2 :: "32 word"

record OkHttpResponse_v2 =
  Headers_v2 :: "HeaderValueOption_v2 list"

record DeniedHttpResponse_v2 =
  DeniedStatus_v2 :: "HttpStatus_v2 option"
  DeniedHeaders_v2 :: "HeaderValueOption_v2 list"
  Body_v2 :: string

datatype HttpResponse_v2 =
    NoHttpResponse_v2
  | OkResponse_v2 "OkHttpResponse_v2 option"
  | DeniedResponse_v2 "DeniedHttpResponse_v2 option"

record CheckResponse_v2 =
  Status_v2 :: "rpc_Status option"
  HttpResponse_v2 :: HttpResponse_v2

subsection \<open>The protocol version shim\<close>

text \<open>
  A nil pointer dereference panics; the three functions return \<open>None\<close> then.
  \<^verbatim>\<open>hv.GetHeader()\<close> is nil-safe, the field access \<^verbatim>\<open>.Key\<close> after it is not.
\<close>

fun v2Headers :: "HeaderValueOption_v3 list \<Rightarrow> HeaderValueOption_v2 list option" where
  "v2Headers [] = Some []"
| "v2Headers (hv # hdrs) =
     (case Header hv of
        None \<Rightarrow> None
      | Some h \<Rightarrow>
          (case v2Headers hdrs of
             None \<Rightarrow> None
           | Some hdrsV2 \<Rightarrow>
               Some (\<lparr> Header_v2 = Some \<lparr> Key_v2 = Key h, Value_v2 = Value h \<rparr>,
                       Append_v2 = None \<rparr> # hdrsV2)))"

definition v2Status :: "HttpStatus_v3 option \<Rightarrow> HttpStatus_v2 option option" where
  "v2Status s =
     (case s of
        None \<Rightarrow> None
      | Some s3 \<Rightarrow> Some (Some \<lparr> HttpCode_v2 = HttpCode s3 \<rparr>))"

text \<open>The nil-safe getter \<^verbatim>\<open>GetHeaders\<close> of the two v3 branches.\<close>

definition Ok_GetHeaders :: "OkHttpResponse_v3 option \<Rightarrow> HeaderValueOption_v3 list" where
  "Ok_GetHeaders x = (case x of None \<Rightarrow> [] | Some ok \<Rightarrow> Headers ok)"

definition Denied_GetHeaders :: "DeniedHttpResponse_v3 option \<Rightarrow> HeaderValueOption_v3 list" where
  "Denied_GetHeaders x = (case x of None \<Rightarrow> [] | Some d \<Rightarrow> DeniedHeaders d)"

definition v2Response :: "CheckResponse_v3 \<Rightarrow> CheckResponse_v2 option" where
  "v2Response respV3 =
     (let respV2 = \<lparr> Status_v2 = Status respV3, HttpResponse_v2 = NoHttpResponse_v2 \<rparr> in
      case HttpResponse respV3 of
        OkResponse ok \<Rightarrow>
          (case v2Headers (Ok_GetHeaders ok) of
             None \<Rightarrow> None
           | Some hs \<Rightarrow>
               Some (respV2\<lparr>HttpResponse_v2 :=
                       OkResponse_v2 (Some \<lparr> Headers_v2 = hs \<rparr>)\<rparr>))
      | DeniedResponse dn \<Rightarrow>
          (case v2Headers (Denied_GetHeaders dn) of
             None \<Rightarrow> None
           | Some hs \<Rightarrow>
               (case dn of
                  None \<Rightarrow> None
                | Some d \<Rightarrow>
                    (case v2Status (DeniedStatus d) of
                       None \<Rightarrow> None
                     | Some st \<Rightarrow>
                         Some (respV2\<lparr>HttpResponse_v2 :=
                                 DeniedResponse_v2
                                   (Some \<lparr> DeniedStatus_v2 = st,
                                           DeniedHeaders_v2 = hs,
                                           Body_v2 = Body d \<rparr>)\<rparr>))))
      | NoHttpResponse \<Rightarrow> Some respV2)"

subsection \<open>The evaluation result and the collaborators of a call\<close>

text \<open>
  \<^verbatim>\<open>envoyauth.EvalResult\<close>: the fields that this file reads or writes. The
  transaction is a handle of the store, here a number.
\<close>

record EvalResult =
  DecisionID :: string
  TxnID :: nat
  Decision :: json
  Txn :: "nat option"
  NDBuiltinCache :: "json option"

text \<open>\<^verbatim>\<open>server.Info\<close>, as \<^verbatim>\<open>log\<close> fills it (the timestamp is left out).\<close>

record Info =
  info_Input :: "(string \<times> json) list option"
  info_Query :: string
  info_Path :: string
  info_NDBuiltinCache :: "json option"

text \<open>
  A call's visible effects are the calls it makes to the engine, the store and the
  decision logger, in order, each with what it returned. \<^verbatim>\<open>Ev_txnClose txn abort\<close>
  is the store closing \<open>txn\<close>, aborting it when \<open>abort\<close> holds and committing it
  otherwise.
\<close>

datatype event =
    Ev_NewEvalResult "error option"
  | Ev_GetTxn "error + nat"
  | Ev_Eval "error option" EvalResult
  | Ev_stopeval
  | Ev_ast_JSON "error + json"
  | Ev_LogDecision Info EvalResult "error option" "error option"
  | Ev_txnClose nat bool

text \<open>
  The functions of other packages that \<^verbatim>\<open>check\<close> and \<^verbatim>\<open>log\<close> call, each given
  by what it returns: \<^verbatim>\<open>envoyauth.NewEvalResult\<close>, \<^verbatim>\<open>EvalResult.GetTxn\<close> (the
  transaction it opens; its closer is \<open>txnClose\<close> below), \<^verbatim>\<open>ctx.Err()\<close>,
  \<^verbatim>\<open>envoyauth.RequestToInput\<close>, \<^verbatim>\<open>ast.InterfaceToValue\<close>, \<^verbatim>\<open>envoyauth.Eval\<close>
  (its error and the evaluation result as it leaves it), the accessors of the
  evaluation result, \<^verbatim>\<open>ast.JSON\<close> on the cache of non-deterministic builtins, and
  \<^verbatim>\<open>decisionlog.LogDecision\<close>.
\<close>

record 'ps collaborators =
  NewEvalResult :: "error + EvalResult"
  GetTxn :: "EvalResult \<Rightarrow> error + nat"
  ctx_Err :: "error option"
  RequestToInput :: "json \<Rightarrow> 'ps option \<Rightarrow> bool \<Rightarrow> error + (string \<times> json) list"
  InterfaceToValue :: "(string \<times> json) list \<Rightarrow> error + json"
  Eval :: "json \<Rightarrow> EvalResult \<Rightarrow> error option \<times> EvalResult"
  IsAllowed :: "EvalResult \<Rightarrow> error + bool"
  GetResponseEnvoyHeaderValueOptions :: "EvalResult \<Rightarrow> error + HeaderValueOption_v3 list"
  GetDynamicMetadata :: "EvalResult \<Rightarrow> error + json option"
  GetRequestHTTPHeadersToRemove :: "EvalResult \<Rightarrow> error + string list"
  GetResponseHTTPHeadersToAdd :: "EvalResult \<Rightarrow> error + HeaderValueOption_v3 list"
  GetResponseBody :: "EvalResult \<Rightarrow> error + string"
  GetResponseEnvoyHTTPStatus :: "EvalResult \<Rightarrow> error + HttpStatus_v3 option"
  ast_JSON :: "json \<Rightarrow> error + json"
  LogDecision :: "Info \<Rightarrow> EvalResult \<Rightarrow> error option \<Rightarrow> error option"

text \<open>\<^verbatim>\<open>envoyExtAuthzGrpcServer\<close>: its configuration and its surroundings.\<close>

record ('q, 'ps) server =
  cfg :: "('q, 'ps) Config"
  co :: "'ps collaborators"

type_synonym stop_fn = "event list \<Rightarrow> rpc_Status option \<times> event list"

text \<open>
  Modelled from the spec: the transaction closer that \<^verbatim>\<open>EvalResult.GetTxn\<close> returns
  (package envoyauth) is not in this file. It closes the transaction through the store's
  \<^verbatim>\<open>Close(ctx, transaction, abort)\<close>: with abort when the error it is given is set,
  with commit otherwise. The error it returns is ignored by its only caller.
\<close>

definition txnClose :: "nat \<Rightarrow> error option \<Rightarrow> event list \<Rightarrow> event list" where
  "txnClose txn e tr = tr @ [Ev_txnClose txn (e \<noteq> None)]"

subsection \<open>\<^verbatim>\<open>log\<close>\<close>

definition log ::
  "('q, 'ps) server \<Rightarrow> (string \<times> json) list option \<Rightarrow> EvalResult \<Rightarrow> error option
     \<Rightarrow> event list \<Rightarrow> error option \<times> event list" where
  "log p input result err tr =
     (let info0 = \<lparr> info_Input = input, info_Query = [], info_Path = [],
                    info_NDBuiltinCache = None \<rparr>;
          info1 = (if Query (cfg p) \<noteq> [] then info0\<lparr>info_Query := Query (cfg p)\<rparr>
                   else info0);
          info2 = (if Path (cfg p) \<noteq> [] then info1\<lparr>info_Path := Path (cfg p)\<rparr>
                   else info1)
      in case NDBuiltinCache result of
           Some nd \<Rightarrow>
             (case ast_JSON (co p) nd of
                Inl e \<Rightarrow> (Some e, tr @ [Ev_ast_JSON (Inl e)])
              | Inr x \<Rightarrow>
                  (let info3 = info2\<lparr>info_NDBuiltinCache := Some x\<rparr>;
                       r = LogDecision (co p) info3 result err
                   in (r, tr @ [Ev_ast_JSON (Inr x), Ev_LogDecision info3 result err r])))
         | None \<Rightarrow>
             (let r = LogDecision (co p) info2 result err
              in (r, tr @ [Ev_LogDecision info2 result err r])))"

subsection \<open>The closure \<^verbatim>\<open>stop\<close>\<close>

text \<open>
  The closure reads \<^verbatim>\<open>input\<close>, \<^verbatim>\<open>result\<close>, \<^verbatim>\<open>err\<close> and \<^verbatim>\<open>evalErr\<close> when it
  is called, which is after \<^verbatim>\<open>check\<close> has returned: they are given here with the
  values they have at that return.
\<close>

definition stop ::
  "('q, 'ps) server \<Rightarrow> nat \<Rightarrow> (string \<times> json) list option \<Rightarrow> EvalResult
     \<Rightarrow> error option \<Rightarrow> error option \<Rightarrow> stop_fn" where
  "stop p txn input result err evalErr tr =
     (case log p input result err (tr @ [Ev_stopeval]) of
        (Some logErr, tr1) \<Rightarrow>
          (Some \<lparr> Code = Code_UNKNOWN, Message = Error logErr \<rparr>,
           txnClose txn (Some logErr) tr1)
      | (None, tr1) \<Rightarrow> (None, txnClose txn evalErr tr1))"

text \<open>The closure returned before a transaction exists.\<close>

definition noStop :: stop_fn where
  "noStop tr = (None, tr)"

subsection \<open>\<^verbatim>\<open>check\<close>\<close>

text \<open>
  Lines 408 to 479: the response is built from the evaluation result. A failure gives
  the pair of the value the function's variable \<^verbatim>\<open>err\<close> has at that return (the
  closure \<^verbatim>\<open>stop\<close> logs it) and the error returned to the caller.

  Inside the \<^verbatim>\<open>case map[string]interface{}\<close> block,
  \<^verbatim>\<open>dynamicMetadata, err := result.GetDynamicMetadata()\<close> declares a new \<^verbatim>\<open>err\<close>;
  the assignments after it in that block write the new variable, and the function's
  \<^verbatim>\<open>err\<close> keeps the nil it got from the successful call before.
\<close>

definition shape ::
  "('q, 'ps) server \<Rightarrow> EvalResult \<Rightarrow> (error option \<times> error) + CheckResponse_v3" where
  "shape p result =
     (case IsAllowed (co p) result of
        Inl err \<Rightarrow> Inl (Some err, Wrap err ''failed to get response status'')
      | Inr allowed \<Rightarrow>
          (let status = (if allowed then Code_OK else Code_PERMISSION_DENIED);
               resp = \<lparr> Status = Some \<lparr> Code = status, Message = [] \<rparr>,
                        HttpResponse = NoHttpResponse,
                        DynamicMetadata = None \<rparr>
           in case Decision result of
                JObj m \<Rightarrow>
                  (case GetResponseEnvoyHeaderValueOptions (co p) result of
                     Inl err \<Rightarrow> Inl (Some err, Wrap err ''failed to get response headers'')
                   | Inr responseHeaders \<Rightarrow>
                  (case GetDynamicMetadata (co p) result of
                     Inl err' \<Rightarrow> Inl (None, Wrap err' ''failed to get dynamic metadata'')
                   | Inr dynamicMetadata \<Rightarrow>
                  (let resp1 = resp\<lparr>DynamicMetadata := dynamicMetadata\<rparr> in
                   if status = Code_OK then
                     (case GetRequestHTTPHeadersToRemove (co p) result of
                        Inl err' \<Rightarrow>
                          Inl (None, Wrap err' ''failed to get request headers to remove'')
                      | Inr headersToRemove \<Rightarrow>
                     (case GetResponseHTTPHeadersToAdd (co p) result of
                        Inl err' \<Rightarrow>
                          Inl (None,
                               Wrap err' ''failed to get response headers to send to client'')
                      | Inr responseHeadersToAdd \<Rightarrow>
                          Inr (resp1\<lparr>HttpResponse :=
                                 OkResponse
                                   (Some \<lparr> Headers = responseHeaders,
                                           HeadersToRemove = headersToRemove,
                                           ResponseHeadersToAdd = responseHeadersToAdd \<rparr>)\<rparr>)))
                   else
                     (case GetResponseBody (co p) result of
                        Inl err' \<Rightarrow> Inl (None, Wrap err' ''failed to get response body'')
                      | Inr body \<Rightarrow>
                     (case GetResponseEnvoyHTTPStatus (co p) result of
                        Inl err' \<Rightarrow>
                          Inl (None, Wrap err' ''failed to get response http status'')
                      | Inr httpStatus \<Rightarrow>
                          Inr (resp1\<lparr>HttpResponse :=
                                 DeniedResponse
                                   (Some \<lparr> DeniedStatus = httpStatus,
                                           DeniedHeaders = responseHeaders,
                                           Body = body \<rparr>)\<rparr>))))))
              | _ \<Rightarrow> Inr resp))"

text \<open>
  Lines 499 to 508, the dry-run override. \<^verbatim>\<open>resp.Status\<close> is never nil here: line
  420 has set it.
\<close>

definition dryRunOverride :: "('q, 'ps) server \<Rightarrow> CheckResponse_v3 \<Rightarrow> CheckResponse_v3" where
  "dryRunOverride p resp =
     (if DryRun (cfg p) then
        (case Status resp of
           None \<Rightarrow> resp
         | Some st \<Rightarrow>
             if Code st \<noteq> Code_OK then
               resp\<lparr>Status := Some \<lparr> Code = Code_OK, Message = [] \<rparr>,
                    HttpResponse :=
                      OkResponse (Some \<lparr> Headers = [], HeadersToRemove = [],
                                         ResponseHeadersToAdd = [] \<rparr>)\<rparr>
             else resp)
      else resp)"

text \<open>
  \<^verbatim>\<open>check\<close> returns the response, the closure and the error. Reading the clock,
  the debug log line and the latency histogram are left out: they decide nothing here.
  The closure is given the values its variables have when \<^verbatim>\<open>check\<close> returns:
  \<^verbatim>\<open>input\<close> is nil until \<^verbatim>\<open>RequestToInput\<close> has returned one (a failing
  \<^verbatim>\<open>RequestToInput\<close> returns nil with its error), and \<^verbatim>\<open>evalErr\<close> is set
  only where \<^verbatim>\<open>envoyauth.Eval\<close> fails.
\<close>

definition check ::
  "('q, 'ps) server \<Rightarrow> json \<Rightarrow> event list
     \<Rightarrow> (CheckResponse_v3 option \<times> stop_fn \<times> error option) \<times> event list" where
  "check p req tr =
     (case NewEvalResult (co p) of
        Inl err \<Rightarrow> ((None, noStop, Some err), tr @ [Ev_NewEvalResult (Some err)])
      | Inr result0 \<Rightarrow>
     (let tr1 = tr @ [Ev_NewEvalResult None] in
      case GetTxn (co p) result0 of
        Inl err \<Rightarrow> ((None, noStop, Some err), tr1 @ [Ev_GetTxn (Inl err)])
      | Inr txn \<Rightarrow>
     (let tr2 = tr1 @ [Ev_GetTxn (Inr txn)];
          result = result0\<lparr>Txn := Some txn\<rparr>
      in case ctx_Err (co p) of
        Some ctxErr \<Rightarrow>
          (let err = Wrap ctxErr ''check request timed out before query execution''
           in ((None, stop p txn None result (Some err) None, Some err), tr2))
      | None \<Rightarrow>
     (case RequestToInput (co p) req (protoSet (cfg p)) (SkipRequestBodyParse (cfg p)) of
        Inl err \<Rightarrow> ((None, stop p txn None result (Some err) None, Some err), tr2)
      | Inr input \<Rightarrow>
     (case InterfaceToValue (co p) input of
        Inl err \<Rightarrow> ((None, stop p txn (Some input) result (Some err) None, Some err), tr2)
      | Inr inputValue \<Rightarrow>
     (case Eval (co p) inputValue result of
        (Some err, result1) \<Rightarrow>
          ((None, stop p txn (Some input) result1 (Some err) (Some err), Some err),
           tr2 @ [Ev_Eval (Some err) result1])
      | (None, result1) \<Rightarrow>
     (let tr3 = tr2 @ [Ev_Eval None result1] in
      case shape p result1 of
        Inl (err, returned) \<Rightarrow>
          ((None, stop p txn (Some input) result1 err None, Some returned), tr3)
      | Inr resp \<Rightarrow>
          ((Some (dryRunOverride p resp), stop p txn (Some input) result1 None None, None),
           tr3))))))))"

subsection \<open>The two service entry points\<close>

text \<open>\<^verbatim>\<open>envoyExtAuthzGrpcServer.Check\<close>, the v3 service.\<close>

definition Check ::
  "('q, 'ps) server \<Rightarrow> json \<Rightarrow> (CheckResponse_v3 option \<times> error option) \<times> event list" where
  "Check p req =
     (case check p req [] of
        ((resp, stp, err), tr) \<Rightarrow>
          (case stp tr of
             (code, tr') \<Rightarrow>
               ((case resp of
                   None \<Rightarrow> None
                 | Some r \<Rightarrow>
                     (case code of
                        None \<Rightarrow> Some r
                      | Some c \<Rightarrow> Some (r\<lparr>Status := Some c\<rparr>)),
                 err),
                tr')))"

text \<open>
  \<^verbatim>\<open>envoyExtAuthzV2Wrapper.Check\<close>, the v2 service. The deferred function runs
  when the function returns and when it panics. It writes through the pointer
  \<^verbatim>\<open>respV2\<close>: on the last return that is the response being returned, on the error
  return it is a response nobody sees.
\<close>

datatype 'a outcome = Returns 'a | Panics

definition Check_v2 ::
  "('q, 'ps) server \<Rightarrow> json
     \<Rightarrow> (CheckResponse_v2 option \<times> error option) outcome \<times> event list" where
  "Check_v2 p req =
     (case check p req [] of
        ((respV3, stp, err), tr) \<Rightarrow>
          (case stp tr of
             (code, tr') \<Rightarrow>
               (case err of
                  Some e \<Rightarrow> (Returns (None, Some e), tr')
                | None \<Rightarrow>
                    (case respV3 of
                       None \<Rightarrow> (Panics, tr')
                     | Some r3 \<Rightarrow>
                         (case v2Response r3 of
                            None \<Rightarrow> (Panics, tr')
                          | Some respV2 \<Rightarrow>
                              (Returns
                                 (Some (case code of
                                          None \<Rightarrow> respV2
                                        | Some c \<Rightarrow> respV2\<lparr>Status_v2 := Some c\<rparr>),
                                  None),
                               tr'))))))"

subsection \<open>Example surroundings\<close>

text \<open>
  One concrete choice of the collaborators, for running the model on concrete calls:
  the engine returns the decision \<open>d\<close> (or fails with \<open>evalErr\<close>), the decision
  logger returns \<open>logErr\<close>, and the accessors read a boolean decision, or a mapping
  with the keys \<^verbatim>\<open>allowed\<close>, \<^verbatim>\<open>headers\<close>, \<^verbatim>\<open>body\<close>, \<^verbatim>\<open>http_status\<close> and
  \<^verbatim>\<open>dynamic_metadata\<close>.
\<close>

definition ex_IsAllowed :: "EvalResult \<Rightarrow> error + bool" where
  "ex_IsAllowed result =
     (case Decision result of
        JBool b \<Rightarrow> Inr b
      | JObj m \<Rightarrow>
          (case map_of m ''allowed'' of
             Some (JBool b) \<Rightarrow> Inr b
           | _ \<Rightarrow> Inl (Err ''unable to determine evaluation result''))
      | _ \<Rightarrow> Inl (Err ''illegal value for policy evaluation result''))"

definition ex_member :: "EvalResult \<Rightarrow> string \<Rightarrow> json option" where
  "ex_member result k = (case Decision result of JObj m \<Rightarrow> map_of m k | _ \<Rightarrow> None)"

definition ex_header :: "string \<times> json \<Rightarrow> HeaderValueOption_v3" where
  "ex_header kv =
     \<lparr> Header = Some \<lparr> Key = fst kv, Value = (case snd kv of JStr v \<Rightarrow> v | _ \<Rightarrow> []) \<rparr>,
       Append = Some False \<rparr>"

definition ex_Headers :: "EvalResult \<Rightarrow> error + HeaderValueOption_v3 list" where
  "ex_Headers result =
     (case ex_member result ''headers'' of
        None \<Rightarrow> Inr []
      | Some (JObj hs) \<Rightarrow> Inr (map ex_header hs)
      | Some _ \<Rightarrow> Inl (Err ''type assertion error''))"

definition ex_Body :: "EvalResult \<Rightarrow> error + string" where
  "ex_Body result =
     (case ex_member result ''body'' of
        None \<Rightarrow> Inr []
      | Some (JStr b) \<Rightarrow> Inr b
      | Some _ \<Rightarrow> Inl (Err ''type assertion error''))"

definition ex_HTTPStatus :: "EvalResult \<Rightarrow> error + HttpStatus_v3 option" where
  "ex_HTTPStatus result =
     (case ex_member result ''http_status'' of
        None \<Rightarrow> Inr (Some \<lparr> HttpCode = 403 \<rparr>)
      | Some (JNum n) \<Rightarrow> Inr (Some \<lparr> HttpCode = of_int n \<rparr>)
      | Some _ \<Rightarrow> Inl (Err ''type assertion error''))"

definition ex_collaborators ::
  "json \<Rightarrow> error option \<Rightarrow> error option \<Rightarrow> unit collaborators" where
  "ex_collaborators d evalErr logErr =
     \<lparr> NewEvalResult =
         Inr \<lparr> DecisionID = ''id-1'', TxnID = 0, Decision = JNull, Txn = None,
               NDBuiltinCache = None \<rparr>,
       GetTxn = (\<lambda>result. Inr 1),
       ctx_Err = None,
       RequestToInput = (\<lambda>req ps skip. Inr [(''attributes'', req)]),
       InterfaceToValue = (\<lambda>input. Inr (JObj input)),
       Eval = (\<lambda>v result.
                 case evalErr of
                   Some e \<Rightarrow> (Some e, result)
                 | None \<Rightarrow> (None, result\<lparr>Decision := d, TxnID := 1\<rparr>)),
       IsAllowed = ex_IsAllowed,
       GetResponseEnvoyHeaderValueOptions = ex_Headers,
       GetDynamicMetadata = (\<lambda>result. Inr (ex_member result ''dynamic_metadata'')),
       GetRequestHTTPHeadersToRemove = (\<lambda>result. Inr []),
       GetResponseHTTPHeadersToAdd = (\<lambda>result. Inr []),
       GetResponseBody = ex_Body,
       GetResponseEnvoyHTTPStatus = ex_HTTPStatus,
       ast_JSON = (\<lambda>nd. Inr nd),
       LogDecision = (\<lambda>info result err. logErr) \<rparr>"

definition ex_server ::
  "bool \<Rightarrow> json \<Rightarrow> error option \<Rightarrow> error option \<Rightarrow> (unit, unit) server" where
  "ex_server dry d evalErr logErr =
     \<lparr> cfg = initialConfig\<lparr>Path := defaultPath, DryRun := dry\<rparr>,
       co = ex_collaborators d evalErr logErr \<rparr>"

text \<open>
  A call to the example server: the request is \<^verbatim>\<open>JNull\<close>. The evaluation result
  after a successful evaluation with decision \<open>d\<close>, the record handed to the decision
  logger, a mapping decision that denies with a header and dynamic metadata, and a
  server whose store cannot open a transaction.
\<close>

definition ex_result :: "json \<Rightarrow> EvalResult" where
  "ex_result d =
     \<lparr> DecisionID = ''id-1'', TxnID = 1, Decision = d, Txn = Some 1,
       NDBuiltinCache = None \<rparr>"

definition ex_info :: Info where
  "ex_info =
     \<lparr> info_Input = Some [(''attributes'', JNull)], info_Query = [],
       info_Path = ''envoy/authz/allow'', info_NDBuiltinCache = None \<rparr>"

definition ex_denyMap :: json where
  "ex_denyMap =
     JObj [(''allowed'', JBool False),
           (''headers'', JObj [(''x-reason'', JStr ''no'')]),
           (''body'', JStr ''denied''),
           (''dynamic_metadata'', JStr ''md'')]"

text \<open>
  The response that \<open>ex_denyMap\<close> is shaped into, and an allow response that carries
  all three header lists.
\<close>

definition ex_denyResponse :: CheckResponse_v3 where
  "ex_denyResponse =
     \<lparr> Status = Some \<lparr> Code = Code_PERMISSION_DENIED, Message = [] \<rparr>,
       HttpResponse =
         DeniedResponse
           (Some \<lparr> DeniedStatus = Some \<lparr> HttpCode = 403 \<rparr>,
                   DeniedHeaders =
                     [\<lparr> Header = Some \<lparr> Key = ''x-reason'', Value = ''no'' \<rparr>,
                        Append = Some False \<rparr>],
                   Body = ''denied'' \<rparr>),
       DynamicMetadata = Some (JStr ''md'') \<rparr>"

definition ex_okHttp :: OkHttpResponse_v3 where
  "ex_okHttp =
     \<lparr> Headers = [\<lparr> Header = Some \<lparr> Key = ''x-user'', Value = ''bob'' \<rparr>,
                    Append = Some True \<rparr>],
       HeadersToRemove = [''cookie''],
       ResponseHeadersToAdd = [\<lparr> Header = Some \<lparr> Key = ''x-seen'', Value = ''1'' \<rparr>,
                                 Append = None \<rparr>] \<rparr>"

definition ex_okResponse :: CheckResponse_v3 where
  "ex_okResponse =
     \<lparr> Status = Some \<lparr> Code = Code_OK, Message = [] \<rparr>,
       HttpResponse = OkResponse (Some ex_okHttp),
       DynamicMetadata = None \<rparr>"


text \<open>
  One concrete choice for \<^verbatim>\<open>Validate\<close>: the bytes are \<^verbatim>\<open>path\<close> or
  \<^verbatim>\<open>path?query\<close>, a query parses to itself, and a reference is printed with dots
  before its string keys and brackets around its indices.
\<close>

fun ex_show_nat :: "nat \<Rightarrow> string" where
  "ex_show_nat n =
     (if n < 10 then [char_of (48 + n)]
      else ex_show_nat (n div 10) @ [char_of (48 + n mod 10)])"

fun ex_Ref_String :: "Ref \<Rightarrow> string" where
  "ex_Ref_String [] = []"
| "ex_Ref_String (VarTerm v # r) = v @ ex_Ref_String r"
| "ex_Ref_String (StringTerm k # r) = ''.'' @ k @ ex_Ref_String r"
| "ex_Ref_String (IntNumberTerm i # r) =
     ''['' @ (if i < 0 then ''-'' else []) @ ex_show_nat (nat \<bar>i\<bar>) @ '']''
     @ ex_Ref_String r"

definition ex_deps :: "(string, unit) validate_deps" where
  "ex_deps =
     \<lparr> Unmarshal = (\<lambda>bs c.
          Inr (c\<lparr>Path := takeWhile (\<lambda>x. x \<noteq> CHR ''?'') bs,
                 Query := drop 1 (dropWhile (\<lambda>x. x \<noteq> CHR ''?'') bs)\<rparr>)),
       ParseBody = (\<lambda>q. Inr q),
       Ref_String = ex_Ref_String,
       ReadProtoSet = (\<lambda>f. Inr ()) \<rparr>"

subsection \<open>Reading a call's trace\<close>

text \<open>
  The steps of the finalize routine, as they show in the trace: metrics stopped, the
  run of \<^verbatim>\<open>log\<close> ended (by the call of the decision logger, or before it when the
  cache of non-deterministic builtins cannot be serialised), the transaction closed.
\<close>

datatype fin_step = Stopped | Logged | Closed

fun step_of :: "event \<Rightarrow> fin_step option" where
  "step_of Ev_stopeval = Some Stopped"
| "step_of (Ev_LogDecision info result err r) = Some Logged"
| "step_of (Ev_ast_JSON (Inl e)) = Some Logged"
| "step_of (Ev_txnClose txn abort) = Some Closed"
| "step_of ev = None"

definition fin_steps :: "event list \<Rightarrow> fin_step list" where
  "fin_steps tr = List.map_filter step_of tr"

text \<open>The call acquired a storage transaction.\<close>

fun is_acquired :: "event \<Rightarrow> bool" where
  "is_acquired (Ev_GetTxn (Inr txn)) = True"
| "is_acquired ev = False"

definition acquired :: "event list \<Rightarrow> bool" where
  "acquired tr = list_ex is_acquired tr"

text \<open>The error of the call's start or of its transaction acquisition, if any.\<close>

fun start_error :: "event \<Rightarrow> error option" where
  "start_error (Ev_NewEvalResult r) = r"
| "start_error (Ev_GetTxn (Inl e)) = Some e"
| "start_error ev = None"


text \<open>The error with which the audit-log emission failed at this step, if it did.\<close>

fun log_failure :: "event \<Rightarrow> error option" where
  "log_failure (Ev_LogDecision info result err r) = r"
| "log_failure (Ev_ast_JSON (Inl e)) = Some e"
| "log_failure ev = None"

definition logFailed :: "event list \<Rightarrow> bool" where
  "logFailed tr = list_ex (\<lambda>ev. log_failure ev \<noteq> None) tr"

text \<open>The evaluation step itself failed: \<^verbatim>\<open>evalErr\<close> is set.\<close>

fun is_eval_failure :: "event \<Rightarrow> bool" where
  "is_eval_failure (Ev_Eval (Some e) result) = True"
| "is_eval_failure ev = False"

definition evalFailed :: "event list \<Rightarrow> bool" where
  "evalFailed tr = list_ex is_eval_failure tr"

text \<open>The decision is a structured mapping.\<close>

fun isMapping :: "json \<Rightarrow> bool" where
  "isMapping (JObj m) = True"
| "isMapping d = False"

text \<open>The key and value of a header entry, in either version.\<close>

definition keyValue_v3 :: "HeaderValueOption_v3 \<Rightarrow> (string \<times> string) option" where
  "keyValue_v3 hv = map_option (\<lambda>h. (Key h, Value h)) (Header hv)"

definition keyValue_v2 :: "HeaderValueOption_v2 \<Rightarrow> (string \<times> string) option" where
  "keyValue_v2 hv = map_option (\<lambda>h. (Key_v2 h, Value_v2 h)) (Header_v2 hv)"

definition emptyOk :: OkHttpResponse_v3 where
  "emptyOk = \<lparr> Headers = [], HeadersToRemove = [], ResponseHeadersToAdd = [] \<rparr>"

section \<open>Entry-point resolution\<close>

text \<open>A slash between two parts of a path splits it into the pieces of the two parts.\<close>

lemma Split_nonempty: "Split s \<noteq> []"
  by (induction s) (auto split: list.splits)

lemma Split_append_slash: "Split (a @ CHR ''/'' # b) = Split a @ Split b"
  by (induction a) (auto split: list.splits simp: Split_nonempty)

lemma pathLoop_eq: "pathLoop r p = r @ map segTerm (filter (\<lambda>x. x \<noteq> []) p)"
  by (induction p arbitrary: r) auto

lemma stringPathToRef_eq: "stringPathToRef s = map segTerm (filter (\<lambda>x. x \<noteq> []) (Split s))"
  by (cases s) (auto simp: stringPathToRef_def pathLoop_eq split: list.splits)

text \<open>
  C10. Path resolution skips empty segments: a slash added in front of a path, after it,
  or next to a slash inside it leaves the resolved reference unchanged. The reference
  has one element for each non-empty segment, in order: the integer index \<open>i\<close> when
  \<^verbatim>\<open>strconv.Atoi\<close> parses the segment as \<open>i\<close>, the string key of the segment
  otherwise.
\<close>

theorem stringPathToRef_skips_empty_segments:
  "stringPathToRef (''/'' @ s) = stringPathToRef s
 \<and> stringPathToRef (s @ ''/'') = stringPathToRef s
 \<and> stringPathToRef (a @ ''//'' @ b) = stringPathToRef (a @ ''/'' @ b)
 \<and> stringPathToRef s =
     map (\<lambda>x. case Atoi x of None \<Rightarrow> StringTerm x | Some i \<Rightarrow> IntNumberTerm i)
         (filter (\<lambda>x. x \<noteq> []) (Split s))"
proof -
  have 1: "stringPathToRef (''/'' @ s) = stringPathToRef s"
    using Split_append_slash[of "[]" s] by (simp add: stringPathToRef_eq)
  have 2: "stringPathToRef (s @ ''/'') = stringPathToRef s"
    using Split_append_slash[of s "[]"] by (simp add: stringPathToRef_eq)
  have 3: "stringPathToRef (a @ ''//'' @ b) = stringPathToRef (a @ ''/'' @ b)"
    using Split_append_slash[of a "CHR ''/'' # b"] Split_append_slash[of a b]
      Split_append_slash[of "[]" b]
    by (simp add: stringPathToRef_eq)
  have 4: "stringPathToRef s =
     map (\<lambda>x. case Atoi x of None \<Rightarrow> StringTerm x | Some i \<Rightarrow> IntNumberTerm i)
         (filter (\<lambda>x. x \<noteq> []) (Split s))"
    unfolding stringPathToRef_eq segTerm_def ..
  from 1 2 3 4 show ?thesis by blast
qed

text \<open>
  Two concrete paths: \<^verbatim>\<open>/foo//bar/\<close> against \<^verbatim>\<open>foo/bar\<close>, and a path with signed
  segments, a segment beyond the 64-bit range and a segment that is not a number.
\<close>

lemma stringPathToRef_example:
  "stringPathToRef ''/foo//bar/'' = stringPathToRef ''foo/bar''
 \<and> stringPathToRef ''a/12/-3/+4/9223372036854775808/1x'' =
     [StringTerm ''a'', IntNumberTerm 12, IntNumberTerm (- 3), IntNumberTerm 4,
      StringTerm ''9223372036854775808'', StringTerm ''1x'']"
  by code_simp

lemma foo_bar_ref:
  "stringPathToDataRef ''foo/bar'' = [DefaultRootDocument, StringTerm ''foo'', StringTerm ''bar'']"
  by code_simp

lemma default_ref:
  "stringPathToDataRef defaultPath =
     [DefaultRootDocument, StringTerm ''envoy'', StringTerm ''authz'', StringTerm ''allow'']"
  by code_simp

section \<open>Configuration validation\<close>

text \<open>
  C8. Validation fails when the decoded configuration has both a path and a query. When
  it has neither, an accepted configuration has the built-in path
  \<^verbatim>\<open>envoy/authz/allow\<close> and the parse of the reference
  \<^verbatim>\<open>data\<close>, \<^verbatim>\<open>envoy\<close>, \<^verbatim>\<open>authz\<close>, \<^verbatim>\<open>allow\<close> as its query. An accepted
  configuration with a query alone keeps the query and has its parse as the entry point;
  one with a path alone keeps the path and has the parse of the printed reference of
  that path. The path \<^verbatim>\<open>foo/bar\<close> resolves to the reference \<^verbatim>\<open>data\<close>,
  \<^verbatim>\<open>foo\<close>, \<^verbatim>\<open>bar\<close>; where that reference prints as \<^verbatim>\<open>data.foo.bar\<close>, the
  path \<^verbatim>\<open>foo/bar\<close> and the query \<^verbatim>\<open>data.foo.bar\<close> both have the parse of
  \<^verbatim>\<open>data.foo.bar\<close> as their entry point: validation returns the configuration with
  that parse when it succeeds (and no descriptor set is asked for), and the parse error
  when it fails.
\<close>

theorem Validate_entry_point:
  "(Unmarshal deps bs initialConfig = Inr c \<and> Path c \<noteq> [] \<and> Query c \<noteq> []
      \<longrightarrow> Validate deps bs = Inl bothSetError)
 \<and> (Unmarshal deps bs initialConfig = Inr c \<and> Path c = [] \<and> Query c = []
      \<and> Validate deps bs = Inr v
      \<longrightarrow> Path v = defaultPath
        \<and> (\<exists>q. ParseBody deps (Ref_String deps [DefaultRootDocument, StringTerm ''envoy'',
                                                StringTerm ''authz'', StringTerm ''allow''])
                   = Inr q \<and> parsedQuery v = Some q))
 \<and> stringPathToDataRef ''foo/bar'' = [DefaultRootDocument, StringTerm ''foo'', StringTerm ''bar'']
 \<and> (Unmarshal deps b1 initialConfig = Inr c1 \<and> Path c1 = ''foo/bar'' \<and> Query c1 = []
      \<and> Unmarshal deps b2 initialConfig = Inr c2 \<and> Path c2 = [] \<and> Query c2 = ''data.foo.bar''
      \<and> Ref_String deps [DefaultRootDocument, StringTerm ''foo'', StringTerm ''bar'']
           = ''data.foo.bar''
      \<longrightarrow> snd (parseEntryPoint deps c1) = snd (parseEntryPoint deps c2)
        \<and> (\<forall>v1 v2. Validate deps b1 = Inr v1 \<and> Validate deps b2 = Inr v2
              \<longrightarrow> parsedQuery v1 = parsedQuery v2)
        \<and> parseEntryPoint deps c1 = (c1, ParseBody deps ''data.foo.bar'')
        \<and> parseEntryPoint deps c2 = (c2, ParseBody deps ''data.foo.bar'')
        \<and> (\<forall>v1. Validate deps b1 = Inr v1
              \<longrightarrow> Path v1 = ''foo/bar'' \<and> Query v1 = []
                \<and> (\<exists>q. ParseBody deps ''data.foo.bar'' = Inr q \<and> parsedQuery v1 = Some q))
        \<and> (\<forall>v2. Validate deps b2 = Inr v2
              \<longrightarrow> Path v2 = [] \<and> Query v2 = ''data.foo.bar''
                \<and> (\<exists>q. ParseBody deps ''data.foo.bar'' = Inr q \<and> parsedQuery v2 = Some q))
        \<and> (\<forall>q. ParseBody deps ''data.foo.bar'' = Inr q
              \<longrightarrow> (ProtoDescriptor c1 = []
                    \<longrightarrow> Validate deps b1 = Inr (c1\<lparr>parsedQuery := Some q\<rparr>))
                \<and> (ProtoDescriptor c2 = []
                    \<longrightarrow> Validate deps b2 = Inr (c2\<lparr>parsedQuery := Some q\<rparr>)))
        \<and> (\<forall>err. ParseBody deps ''data.foo.bar'' = Inl err
              \<longrightarrow> Validate deps b1 = Inl err \<and> Validate deps b2 = Inl err))
 \<and> (Unmarshal deps bs initialConfig = Inr c \<and> Path c = [] \<and> Query c \<noteq> []
      \<and> Validate deps bs = Inr v
      \<longrightarrow> Path v = [] \<and> Query v = Query c
        \<and> (\<exists>q. ParseBody deps (Query c) = Inr q \<and> parsedQuery v = Some q))
 \<and> (Unmarshal deps bs initialConfig = Inr c \<and> Path c \<noteq> [] \<and> Query c = []
      \<and> Validate deps bs = Inr v
      \<longrightarrow> Path v = Path c \<and> Query v = []
        \<and> (\<exists>q. ParseBody deps (Ref_String deps (stringPathToDataRef (Path c))) = Inr q
               \<and> parsedQuery v = Some q))"
proof -
  have 1: "Unmarshal deps bs initialConfig = Inr c \<and> Path c \<noteq> [] \<and> Query c \<noteq> []
      \<longrightarrow> Validate deps bs = Inl bothSetError"
    by (simp add: Validate_def)
  have 2: "Unmarshal deps bs initialConfig = Inr c \<and> Path c = [] \<and> Query c = []
      \<and> Validate deps bs = Inr v
      \<longrightarrow> Path v = defaultPath
        \<and> (\<exists>q. ParseBody deps (Ref_String deps [DefaultRootDocument, StringTerm ''envoy'',
                                                StringTerm ''authz'', StringTerm ''allow''])
                   = Inr q \<and> parsedQuery v = Some q)"
    by (auto simp: Validate_def parseEntryPoint_def Let_def default_ref
             split: sum.splits if_splits)
  have 3: "stringPathToDataRef ''foo/bar''
             = [DefaultRootDocument, StringTerm ''foo'', StringTerm ''bar'']"
    by (rule foo_bar_ref)
  have 4: "Unmarshal deps b1 initialConfig = Inr c1 \<and> Path c1 = ''foo/bar'' \<and> Query c1 = []
      \<and> Unmarshal deps b2 initialConfig = Inr c2 \<and> Path c2 = [] \<and> Query c2 = ''data.foo.bar''
      \<and> Ref_String deps [DefaultRootDocument, StringTerm ''foo'', StringTerm ''bar'']
           = ''data.foo.bar''
      \<longrightarrow> snd (parseEntryPoint deps c1) = snd (parseEntryPoint deps c2)
        \<and> (\<forall>v1 v2. Validate deps b1 = Inr v1 \<and> Validate deps b2 = Inr v2
              \<longrightarrow> parsedQuery v1 = parsedQuery v2)
        \<and> parseEntryPoint deps c1 = (c1, ParseBody deps ''data.foo.bar'')
        \<and> parseEntryPoint deps c2 = (c2, ParseBody deps ''data.foo.bar'')
        \<and> (\<forall>v1. Validate deps b1 = Inr v1
              \<longrightarrow> Path v1 = ''foo/bar'' \<and> Query v1 = []
                \<and> (\<exists>q. ParseBody deps ''data.foo.bar'' = Inr q \<and> parsedQuery v1 = Some q))
        \<and> (\<forall>v2. Validate deps b2 = Inr v2
              \<longrightarrow> Path v2 = [] \<and> Query v2 = ''data.foo.bar''
                \<and> (\<exists>q. ParseBody deps ''data.foo.bar'' = Inr q \<and> parsedQuery v2 = Some q))
        \<and> (\<forall>q. ParseBody deps ''data.foo.bar'' = Inr q
              \<longrightarrow> (ProtoDescriptor c1 = []
                    \<longrightarrow> Validate deps b1 = Inr (c1\<lparr>parsedQuery := Some q\<rparr>))
                \<and> (ProtoDescriptor c2 = []
                    \<longrightarrow> Validate deps b2 = Inr (c2\<lparr>parsedQuery := Some q\<rparr>)))
        \<and> (\<forall>err. ParseBody deps ''data.foo.bar'' = Inl err
              \<longrightarrow> Validate deps b1 = Inl err \<and> Validate deps b2 = Inl err)"
  proof (intro impI)
    assume a: "Unmarshal deps b1 initialConfig = Inr c1 \<and> Path c1 = ''foo/bar'' \<and> Query c1 = []
      \<and> Unmarshal deps b2 initialConfig = Inr c2 \<and> Path c2 = [] \<and> Query c2 = ''data.foo.bar''
      \<and> Ref_String deps [DefaultRootDocument, StringTerm ''foo'', StringTerm ''bar'']
           = ''data.foo.bar''"
    then have p1: "parseEntryPoint deps c1 = (c1, ParseBody deps ''data.foo.bar'')"
      by (simp add: parseEntryPoint_def Let_def foo_bar_ref)
    from a have p2: "parseEntryPoint deps c2 = (c2, ParseBody deps ''data.foo.bar'')"
      by (simp add: parseEntryPoint_def)
    from a p1 have v1: "Validate deps b1 =
        (case ParseBody deps ''data.foo.bar'' of
           Inl err \<Rightarrow> Inl err
         | Inr q \<Rightarrow>
             if ProtoDescriptor c1 \<noteq> [] then
               (case ReadProtoSet deps (ProtoDescriptor c1) of
                  Inl err \<Rightarrow> Inl err
                | Inr ps \<Rightarrow> Inr (c1\<lparr>parsedQuery := Some q, protoSet := Some ps\<rparr>))
             else Inr (c1\<lparr>parsedQuery := Some q\<rparr>))"
      by (simp add: Validate_def Let_def split: sum.splits)
    from a p2 have v2: "Validate deps b2 =
        (case ParseBody deps ''data.foo.bar'' of
           Inl err \<Rightarrow> Inl err
         | Inr q \<Rightarrow>
             if ProtoDescriptor c2 \<noteq> [] then
               (case ReadProtoSet deps (ProtoDescriptor c2) of
                  Inl err \<Rightarrow> Inl err
                | Inr ps \<Rightarrow> Inr (c2\<lparr>parsedQuery := Some q, protoSet := Some ps\<rparr>))
             else Inr (c2\<lparr>parsedQuery := Some q\<rparr>))"
      by (simp add: Validate_def Let_def split: sum.splits)
    from a p1 p2 v1 v2
    show "snd (parseEntryPoint deps c1) = snd (parseEntryPoint deps c2)
        \<and> (\<forall>v1 v2. Validate deps b1 = Inr v1 \<and> Validate deps b2 = Inr v2
              \<longrightarrow> parsedQuery v1 = parsedQuery v2)
        \<and> parseEntryPoint deps c1 = (c1, ParseBody deps ''data.foo.bar'')
        \<and> parseEntryPoint deps c2 = (c2, ParseBody deps ''data.foo.bar'')
        \<and> (\<forall>v1. Validate deps b1 = Inr v1
              \<longrightarrow> Path v1 = ''foo/bar'' \<and> Query v1 = []
                \<and> (\<exists>q. ParseBody deps ''data.foo.bar'' = Inr q \<and> parsedQuery v1 = Some q))
        \<and> (\<forall>v2. Validate deps b2 = Inr v2
              \<longrightarrow> Path v2 = [] \<and> Query v2 = ''data.foo.bar''
                \<and> (\<exists>q. ParseBody deps ''data.foo.bar'' = Inr q \<and> parsedQuery v2 = Some q))
        \<and> (\<forall>q. ParseBody deps ''data.foo.bar'' = Inr q
              \<longrightarrow> (ProtoDescriptor c1 = []
                    \<longrightarrow> Validate deps b1 = Inr (c1\<lparr>parsedQuery := Some q\<rparr>))
                \<and> (ProtoDescriptor c2 = []
                    \<longrightarrow> Validate deps b2 = Inr (c2\<lparr>parsedQuery := Some q\<rparr>)))
        \<and> (\<forall>err. ParseBody deps ''data.foo.bar'' = Inl err
              \<longrightarrow> Validate deps b1 = Inl err \<and> Validate deps b2 = Inl err)"
      by (auto split: sum.splits if_splits)
  qed
  have 5: "Unmarshal deps bs initialConfig = Inr c \<and> Path c = [] \<and> Query c \<noteq> []
      \<and> Validate deps bs = Inr v
      \<longrightarrow> Path v = [] \<and> Query v = Query c
        \<and> (\<exists>q. ParseBody deps (Query c) = Inr q \<and> parsedQuery v = Some q)"
    by (auto simp: Validate_def parseEntryPoint_def Let_def split: sum.splits if_splits)
  have 6: "Unmarshal deps bs initialConfig = Inr c \<and> Path c \<noteq> [] \<and> Query c = []
      \<and> Validate deps bs = Inr v
      \<longrightarrow> Path v = Path c \<and> Query v = []
        \<and> (\<exists>q. ParseBody deps (Ref_String deps (stringPathToDataRef (Path c))) = Inr q
               \<and> parsedQuery v = Some q)"
    by (auto simp: Validate_def parseEntryPoint_def Let_def split: sum.splits if_splits)
  from 1 2 3 4 5 6 show ?thesis by blast
qed

text \<open>
  The example configuration source on four inputs: both fields, neither, the path
  \<^verbatim>\<open>foo/bar\<close>, the query \<^verbatim>\<open>data.foo.bar\<close>.
\<close>

theorem Validate_entry_point_witness:
  "Unmarshal ex_deps ''a?data.foo.bar'' initialConfig
     = Inr (initialConfig\<lparr>Path := ''a'', Query := ''data.foo.bar''\<rparr>)
 \<and> Validate ex_deps ''a?data.foo.bar'' = Inl bothSetError
 \<and> Unmarshal ex_deps [] initialConfig = Inr (initialConfig\<lparr>Path := [], Query := []\<rparr>)
 \<and> Validate ex_deps []
     = Inr (initialConfig\<lparr>Path := defaultPath, Query := [],
                           parsedQuery := Some ''data.envoy.authz.allow''\<rparr>)
 \<and> Unmarshal ex_deps ''foo/bar'' initialConfig
     = Inr (initialConfig\<lparr>Path := ''foo/bar'', Query := []\<rparr>)
 \<and> Unmarshal ex_deps ''?data.foo.bar'' initialConfig
     = Inr (initialConfig\<lparr>Path := [], Query := ''data.foo.bar''\<rparr>)
 \<and> Ref_String ex_deps [DefaultRootDocument, StringTerm ''foo'', StringTerm ''bar'']
     = ''data.foo.bar''
 \<and> snd (parseEntryPoint ex_deps (initialConfig\<lparr>Path := ''foo/bar'', Query := []\<rparr>))
     = snd (parseEntryPoint ex_deps (initialConfig\<lparr>Path := [], Query := ''data.foo.bar''\<rparr>))
 \<and> Path (initialConfig\<lparr>Path := defaultPath, Query := [],
                         parsedQuery := Some ''data.envoy.authz.allow''\<rparr> :: (string, unit) Config)
     = defaultPath
 \<and> ParseBody ex_deps ''data.foo.bar'' = Inr ''data.foo.bar''
 \<and> Validate ex_deps ''foo/bar''
     = Inr (initialConfig\<lparr>Path := ''foo/bar'', Query := [],
                           parsedQuery := Some ''data.foo.bar''\<rparr>)
 \<and> Validate ex_deps ''?data.foo.bar''
     = Inr (initialConfig\<lparr>Path := [], Query := ''data.foo.bar'',
                           parsedQuery := Some ''data.foo.bar''\<rparr>)
 \<and> parseEntryPoint ex_deps (initialConfig\<lparr>Path := ''foo/bar'', Query := []\<rparr>)
     = (initialConfig\<lparr>Path := ''foo/bar'', Query := []\<rparr>, Inr ''data.foo.bar'')
 \<and> (\<exists>q. ParseBody ex_deps ''data.foo.bar'' = Inr q
        \<and> parsedQuery (initialConfig\<lparr>Path := [], Query := ''data.foo.bar'',
                                      parsedQuery := Some ''data.foo.bar''\<rparr>
                         :: (string, unit) Config) = Some q)
 \<and> (\<exists>q. ParseBody ex_deps (Ref_String ex_deps (stringPathToDataRef ''foo/bar'')) = Inr q
        \<and> parsedQuery (initialConfig\<lparr>Path := ''foo/bar'', Query := [],
                                      parsedQuery := Some ''data.foo.bar''\<rparr>
                         :: (string, unit) Config) = Some q)"
proof -
  let ?c0 = "initialConfig\<lparr>Path := ''a'', Query := ''data.foo.bar''\<rparr> :: (string, unit) Config"
  let ?cn = "initialConfig\<lparr>Path := [], Query := []\<rparr> :: (string, unit) Config"
  let ?v = "initialConfig\<lparr>Path := defaultPath, Query := [],
                           parsedQuery := Some ''data.envoy.authz.allow''\<rparr> :: (string, unit) Config"
  let ?c1 = "initialConfig\<lparr>Path := ''foo/bar'', Query := []\<rparr> :: (string, unit) Config"
  let ?c2 = "initialConfig\<lparr>Path := [], Query := ''data.foo.bar''\<rparr> :: (string, unit) Config"
  let ?v1 = "initialConfig\<lparr>Path := ''foo/bar'', Query := [],
                           parsedQuery := Some ''data.foo.bar''\<rparr> :: (string, unit) Config"
  let ?v2 = "initialConfig\<lparr>Path := [], Query := ''data.foo.bar'',
                           parsedQuery := Some ''data.foo.bar''\<rparr> :: (string, unit) Config"
  have u0: "Unmarshal ex_deps ''a?data.foo.bar'' initialConfig = Inr ?c0
      \<and> Path ?c0 \<noteq> [] \<and> Query ?c0 \<noteq> []"
    by code_simp
  have un: "Unmarshal ex_deps [] initialConfig = Inr ?cn \<and> Path ?cn = [] \<and> Query ?cn = []
      \<and> Validate ex_deps [] = Inr ?v"
    by code_simp
  have u12: "Unmarshal ex_deps ''foo/bar'' initialConfig = Inr ?c1 \<and> Path ?c1 = ''foo/bar''
      \<and> Query ?c1 = []
      \<and> Unmarshal ex_deps ''?data.foo.bar'' initialConfig = Inr ?c2 \<and> Path ?c2 = []
      \<and> Query ?c2 = ''data.foo.bar''
      \<and> Ref_String ex_deps [DefaultRootDocument, StringTerm ''foo'', StringTerm ''bar'']
           = ''data.foo.bar''"
    by code_simp
  have pb: "ParseBody ex_deps ''data.foo.bar'' = Inr ''data.foo.bar''"
    by code_simp
  have pd: "ProtoDescriptor ?c1 = [] \<and> ProtoDescriptor ?c2 = []"
    by code_simp
  have eq: "?c1\<lparr>parsedQuery := Some ''data.foo.bar''\<rparr> = ?v1"
    "?c2\<lparr>parsedQuery := Some ''data.foo.bar''\<rparr> = ?v2"
    "Path ?c2 = [] \<and> Query ?c2 \<noteq> []" "Path ?c1 \<noteq> [] \<and> Query ?c1 = []"
    "Query ?c2 = ''data.foo.bar''" "Path ?c1 = ''foo/bar''"
    by code_simp+
  from u0 Validate_entry_point[where deps = ex_deps and bs = "''a?data.foo.bar''" and c = ?c0]
  have 1: "Validate ex_deps ''a?data.foo.bar'' = Inl bothSetError" by blast
  from un Validate_entry_point[where deps = ex_deps and bs = "[]" and c = ?cn and v = ?v]
  have 2: "Path ?v = defaultPath" by blast
  note t = Validate_entry_point[where deps = ex_deps and ?b1.0 = "''foo/bar''" and ?c1.0 = ?c1
      and ?b2.0 = "''?data.foo.bar''" and ?c2.0 = ?c2]
  from u12 t
  have 3: "snd (parseEntryPoint ex_deps ?c1) = snd (parseEntryPoint ex_deps ?c2)" by blast
  from u12 t have "parseEntryPoint ex_deps ?c1 = (?c1, ParseBody ex_deps ''data.foo.bar'')"
    by blast
  with pb have 4: "parseEntryPoint ex_deps ?c1 = (?c1, Inr ''data.foo.bar'')" by simp
  from u12 t pb pd
  have "Validate ex_deps ''foo/bar'' = Inr (?c1\<lparr>parsedQuery := Some ''data.foo.bar''\<rparr>)
      \<and> Validate ex_deps ''?data.foo.bar'' = Inr (?c2\<lparr>parsedQuery := Some ''data.foo.bar''\<rparr>)"
    by blast
  with eq have 5: "Validate ex_deps ''foo/bar'' = Inr ?v1"
    and 6: "Validate ex_deps ''?data.foo.bar'' = Inr ?v2"
    by simp_all
  from u12 eq 6
    Validate_entry_point[where deps = ex_deps and bs = "''?data.foo.bar''" and c = ?c2 and v = ?v2]
  have 7: "\<exists>q. ParseBody ex_deps ''data.foo.bar'' = Inr q \<and> parsedQuery ?v2 = Some q"
    by metis
  from u12 eq 5
    Validate_entry_point[where deps = ex_deps and bs = "''foo/bar''" and c = ?c1 and v = ?v1]
  have 8: "\<exists>q. ParseBody ex_deps (Ref_String ex_deps (stringPathToDataRef ''foo/bar'')) = Inr q
        \<and> parsedQuery ?v1 = Some q"
    by metis
  from u0 un u12 pb 1 2 3 4 5 6 7 8 show ?thesis by blast
qed

section \<open>The protocol version shim\<close>

lemma v2Headers_eq:
  "v2Headers hs = (if list_all (\<lambda>hv. Header hv \<noteq> None) hs
                   then Some (map (\<lambda>hv. \<lparr> Header_v2 = map_option (\<lambda>h. \<lparr> Key_v2 = Key h, Value_v2 = Value h \<rparr>) (Header hv), Append_v2 = None \<rparr>) hs)
                   else None)"
  by (induction hs) (auto split: option.splits)

lemma v2Headers_Some:
  "v2Headers hs = Some hs2 \<Longrightarrow>
     map keyValue_v2 hs2 = map keyValue_v3 hs \<and> list_all (\<lambda>h. Append_v2 h = None) hs2
     \<and> list_all (\<lambda>hv. Header hv \<noteq> None) hs"
  by (auto simp: v2Headers_eq keyValue_v2_def keyValue_v3_def list_all_iff option.map_comp o_def split: if_splits)

lemma v2Headers_total:
  "list_all (\<lambda>hv. Header hv \<noteq> None) hs \<Longrightarrow> \<exists>hs2. v2Headers hs = Some hs2"
  by (simp add: v2Headers_eq)

text \<open>
  C7. The v2 translation copies the status verbatim. On the allow branch it copies the
  keys and values of the headers-to-add list, and its result does not depend on the
  headers to remove or on the response headers to add. On the deny branch it copies the
  keys and values of the headers, the body, and the number of the HTTP status code. The
  header entries and the deny status are taken non-nil, as \<^verbatim>\<open>check\<close> builds them.
\<close>

theorem v2Response_translation:
  "(v2Response r = Some r2 \<longrightarrow> Status_v2 r2 = Status r)
 \<and> (HttpResponse r = OkResponse (Some ok) \<and> list_all (\<lambda>hv. Header hv \<noteq> None) (Headers ok)
      \<longrightarrow> (\<exists>hs2. v2Response r =
                    Some \<lparr> Status_v2 = Status r,
                           HttpResponse_v2 = OkResponse_v2 (Some \<lparr> Headers_v2 = hs2 \<rparr>) \<rparr>
                 \<and> map keyValue_v2 hs2 = map keyValue_v3 (Headers ok)
                 \<and> v2Response (r\<lparr>HttpResponse := OkResponse
                       (Some (ok\<lparr>HeadersToRemove := rm, ResponseHeadersToAdd := ad\<rparr>))\<rparr>)
                   = v2Response r))
 \<and> (HttpResponse r = DeniedResponse (Some d) \<and> DeniedStatus d = Some st
      \<and> list_all (\<lambda>hv. Header hv \<noteq> None) (DeniedHeaders d)
      \<longrightarrow> (\<exists>hs2. v2Response r =
                    Some \<lparr> Status_v2 = Status r,
                           HttpResponse_v2 = DeniedResponse_v2
                             (Some \<lparr> DeniedStatus_v2 = Some \<lparr> HttpCode_v2 = HttpCode st \<rparr>,
                                     DeniedHeaders_v2 = hs2,
                                     Body_v2 = Body d \<rparr>) \<rparr>
                 \<and> map keyValue_v2 hs2 = map keyValue_v3 (DeniedHeaders d)))"
proof (intro conjI impI)
  assume "v2Response r = Some r2"
  then show "Status_v2 r2 = Status r"
    by (auto simp: v2Response_def Let_def split: HttpResponse_v3.splits option.splits)
next
  assume a: "HttpResponse r = OkResponse (Some ok) \<and> list_all (\<lambda>hv. Header hv \<noteq> None) (Headers ok)"
  then obtain hs2 where h: "v2Headers (Headers ok) = Some hs2"
    using v2Headers_total by blast
  with a v2Headers_Some[OF h] show "\<exists>hs2. v2Response r =
                    Some \<lparr> Status_v2 = Status r,
                           HttpResponse_v2 = OkResponse_v2 (Some \<lparr> Headers_v2 = hs2 \<rparr>) \<rparr>
                 \<and> map keyValue_v2 hs2 = map keyValue_v3 (Headers ok)
                 \<and> v2Response (r\<lparr>HttpResponse := OkResponse
                       (Some (ok\<lparr>HeadersToRemove := rm, ResponseHeadersToAdd := ad\<rparr>))\<rparr>)
                   = v2Response r"
    by (simp add: v2Response_def Let_def Ok_GetHeaders_def)
next
  assume a: "HttpResponse r = DeniedResponse (Some d) \<and> DeniedStatus d = Some st
      \<and> list_all (\<lambda>hv. Header hv \<noteq> None) (DeniedHeaders d)"
  then obtain hs2 where h: "v2Headers (DeniedHeaders d) = Some hs2"
    using v2Headers_total by blast
  with a v2Headers_Some[OF h] show "\<exists>hs2. v2Response r =
                    Some \<lparr> Status_v2 = Status r,
                           HttpResponse_v2 = DeniedResponse_v2
                             (Some \<lparr> DeniedStatus_v2 = Some \<lparr> HttpCode_v2 = HttpCode st \<rparr>,
                                     DeniedHeaders_v2 = hs2,
                                     Body_v2 = Body d \<rparr>) \<rparr>
                 \<and> map keyValue_v2 hs2 = map keyValue_v3 (DeniedHeaders d)"
    by (simp add: v2Response_def Let_def Denied_GetHeaders_def v2Status_def)
qed

text \<open>
  An allow response with all three header lists, and the deny response of the example.
\<close>

theorem v2Response_translation_witness:
  "HttpResponse ex_okResponse = OkResponse (Some ex_okHttp)
 \<and> list_all (\<lambda>hv. Header hv \<noteq> None) (Headers ex_okHttp)
 \<and> v2Response ex_okResponse =
     Some \<lparr> Status_v2 = Some \<lparr> Code = Code_OK, Message = [] \<rparr>,
            HttpResponse_v2 = OkResponse_v2
              (Some \<lparr> Headers_v2 = [\<lparr> Header_v2 = Some \<lparr> Key_v2 = ''x-user'', Value_v2 = ''bob'' \<rparr>,
                                       Append_v2 = None \<rparr>] \<rparr>) \<rparr>
 \<and> v2Response (ex_okResponse\<lparr>HttpResponse := OkResponse
       (Some (ex_okHttp\<lparr>HeadersToRemove := [], ResponseHeadersToAdd := []\<rparr>))\<rparr>)
     = v2Response ex_okResponse
 \<and> HttpResponse ex_denyResponse
     = DeniedResponse (Some \<lparr> DeniedStatus = Some \<lparr> HttpCode = 403 \<rparr>,
                   DeniedHeaders =
                     [\<lparr> Header = Some \<lparr> Key = ''x-reason'', Value = ''no'' \<rparr>,
                        Append = Some False \<rparr>],
                   Body = ''denied'' \<rparr>)
 \<and> v2Response ex_denyResponse =
     Some \<lparr> Status_v2 = Some \<lparr> Code = Code_PERMISSION_DENIED, Message = [] \<rparr>,
            HttpResponse_v2 = DeniedResponse_v2
              (Some \<lparr> DeniedStatus_v2 = Some \<lparr> HttpCode_v2 = 403 \<rparr>,
                      DeniedHeaders_v2 = [\<lparr> Header_v2 = Some \<lparr> Key_v2 = ''x-reason'', Value_v2 = ''no'' \<rparr>,
                                            Append_v2 = None \<rparr>],
                      Body_v2 = ''denied'' \<rparr>) \<rparr>
 \<and> (\<exists>hs2. v2Response ex_denyResponse =
            Some \<lparr> Status_v2 = Status ex_denyResponse,
                   HttpResponse_v2 = DeniedResponse_v2
                     (Some \<lparr> DeniedStatus_v2 = Some \<lparr> HttpCode_v2 = 403 \<rparr>,
                             DeniedHeaders_v2 = hs2,
                             Body_v2 = ''denied'' \<rparr>) \<rparr>
          \<and> map keyValue_v2 hs2 = [Some (''x-reason'', ''no'')])"
proof -
  let ?d = "\<lparr> DeniedStatus = Some \<lparr> HttpCode = 403 \<rparr>,
                   DeniedHeaders =
                     [\<lparr> Header = Some \<lparr> Key = ''x-reason'', Value = ''no'' \<rparr>,
                        Append = Some False \<rparr>],
                   Body = ''denied'' \<rparr>"
  have h1: "HttpResponse ex_okResponse = OkResponse (Some ex_okHttp)
      \<and> list_all (\<lambda>hv. Header hv \<noteq> None) (Headers ex_okHttp)"
    by code_simp
  have h2: "HttpResponse ex_denyResponse = DeniedResponse (Some ?d)
      \<and> DeniedStatus ?d = Some \<lparr> HttpCode = 403 \<rparr>
      \<and> list_all (\<lambda>hv. Header hv \<noteq> None) (DeniedHeaders ?d)"
    by code_simp
  have v1: "v2Response ex_okResponse =
     Some \<lparr> Status_v2 = Some \<lparr> Code = Code_OK, Message = [] \<rparr>,
            HttpResponse_v2 = OkResponse_v2
              (Some \<lparr> Headers_v2 = [\<lparr> Header_v2 = Some \<lparr> Key_v2 = ''x-user'', Value_v2 = ''bob'' \<rparr>,
                                       Append_v2 = None \<rparr>] \<rparr>) \<rparr>"
    by code_simp
  have v2: "v2Response ex_denyResponse =
     Some \<lparr> Status_v2 = Some \<lparr> Code = Code_PERMISSION_DENIED, Message = [] \<rparr>,
            HttpResponse_v2 = DeniedResponse_v2
              (Some \<lparr> DeniedStatus_v2 = Some \<lparr> HttpCode_v2 = 403 \<rparr>,
                      DeniedHeaders_v2 = [\<lparr> Header_v2 = Some \<lparr> Key_v2 = ''x-reason'', Value_v2 = ''no'' \<rparr>,
                                            Append_v2 = None \<rparr>],
                      Body_v2 = ''denied'' \<rparr>) \<rparr>"
    by code_simp
  from h1 v2Response_translation[where r = ex_okResponse and ok = ex_okHttp
      and rm = "[]" and ad = "[]"]
  have "v2Response (ex_okResponse\<lparr>HttpResponse := OkResponse
       (Some (ex_okHttp\<lparr>HeadersToRemove := [], ResponseHeadersToAdd := []\<rparr>))\<rparr>)
     = v2Response ex_okResponse"
    by blast
  moreover
  have kv: "map keyValue_v3 (DeniedHeaders ?d) = [Some (''x-reason'', ''no'')]"
    "HttpCode \<lparr> HttpCode = 403 \<rparr> = 403" "Body ?d = ''denied''"
    by code_simp+
  from h2 v2Response_translation[where r = ex_denyResponse and d = ?d
      and st = "\<lparr> HttpCode = 403 \<rparr>"]
  have "\<exists>hs2. v2Response ex_denyResponse =
            Some \<lparr> Status_v2 = Status ex_denyResponse,
                   HttpResponse_v2 = DeniedResponse_v2
                     (Some \<lparr> DeniedStatus_v2 = Some \<lparr> HttpCode_v2 = HttpCode \<lparr> HttpCode = 403 \<rparr> \<rparr>,
                             DeniedHeaders_v2 = hs2,
                             Body_v2 = Body ?d \<rparr>) \<rparr>
          \<and> map keyValue_v2 hs2 = map keyValue_v3 (DeniedHeaders ?d)"
    by blast
  with kv have "\<exists>hs2. v2Response ex_denyResponse =
            Some \<lparr> Status_v2 = Status ex_denyResponse,
                   HttpResponse_v2 = DeniedResponse_v2
                     (Some \<lparr> DeniedStatus_v2 = Some \<lparr> HttpCode_v2 = 403 \<rparr>,
                             DeniedHeaders_v2 = hs2,
                             Body_v2 = ''denied'' \<rparr>) \<rparr>
          \<and> map keyValue_v2 hs2 = [Some (''x-reason'', ''no'')]"
    by simp
  ultimately show ?thesis using h1 h2 v1 v2 by blast
qed

section \<open>The decision pipeline\<close>

subsection \<open>The shape of a call's trace\<close>


lemma fin_steps_Nil: "fin_steps [] = []"
  by (simp add: fin_steps_def)

lemma fin_steps_Cons: "fin_steps (ev # tr) = (case step_of ev of None \<Rightarrow> fin_steps tr | Some s \<Rightarrow> s # fin_steps tr)"
  by (simp add: fin_steps_def split: option.split)

lemma trace_preds [simp]:
  "acquired [] = False" "acquired (ev # tr) = (is_acquired ev \<or> acquired tr)"
  "acquired (a @ b) = (acquired a \<or> acquired b)"
  "evalFailed [] = False" "evalFailed (ev # tr) = (is_eval_failure ev \<or> evalFailed tr)"
  "evalFailed (a @ b) = (evalFailed a \<or> evalFailed b)"
  "logFailed [] = False" "logFailed (ev # tr) = (log_failure ev \<noteq> None \<or> logFailed tr)"
  "logFailed (a @ b) = (logFailed a \<or> logFailed b)"
  by (simp_all add: acquired_def evalFailed_def logFailed_def)




text \<open>What one run of \<^verbatim>\<open>log\<close> and of the closure \<^verbatim>\<open>stop\<close> adds to the trace.\<close>

lemma log_form:
  "\<exists>evs r. log p input result err tr = (r, tr @ evs)
     \<and> fin_steps evs = [Logged]
     \<and> \<not> acquired evs \<and> \<not> evalFailed evs
     \<and> logFailed evs = (r \<noteq> None)
     \<and> (\<forall>ev\<in>set evs. \<forall>le. log_failure ev = Some le \<longrightarrow> r = Some le)
     \<and> (\<forall>info res lerr ret. Ev_LogDecision info res lerr ret \<in> set evs \<longrightarrow> res = result \<and> lerr = err \<and> info_Input info = input)
     \<and> (\<forall>txn a. Ev_txnClose txn a \<notin> set evs)
     \<and> (\<forall>ev\<in>set evs. start_error ev = None)"
  by (auto simp: log_def Let_def fin_steps_Cons fin_steps_Nil acquired_def evalFailed_def logFailed_def
           split: option.split sum.split)

lemma stop_form:
  "\<exists>evs r. stop p txn input result err evalErr tr =
         (map_option (\<lambda>le. \<lparr> Code = Code_UNKNOWN, Message = Error le \<rparr>) r,
          tr @ [Ev_stopeval] @ evs @ [Ev_txnClose txn (r \<noteq> None \<or> evalErr \<noteq> None)])
     \<and> fin_steps evs = [Logged]
     \<and> \<not> acquired evs \<and> \<not> evalFailed evs
     \<and> logFailed evs = (r \<noteq> None)
     \<and> (\<forall>ev\<in>set evs. \<forall>le. log_failure ev = Some le \<longrightarrow> r = Some le)
     \<and> (\<forall>info res lerr ret. Ev_LogDecision info res lerr ret \<in> set evs \<longrightarrow> res = result \<and> lerr = err \<and> info_Input info = input)
     \<and> (\<forall>txn a. Ev_txnClose txn a \<notin> set evs)
     \<and> (\<forall>ev\<in>set evs. start_error ev = None)"
proof -
  obtain evs r where l: "log p input result err (tr @ [Ev_stopeval]) = (r, (tr @ [Ev_stopeval]) @ evs)"
     and props: "fin_steps evs = [Logged]" "\<not> acquired evs" "\<not> evalFailed evs"
      "logFailed evs = (r \<noteq> None)"
      "\<forall>ev\<in>set evs. \<forall>le. log_failure ev = Some le \<longrightarrow> r = Some le"
      "\<forall>info res lerr ret. Ev_LogDecision info res lerr ret \<in> set evs \<longrightarrow> res = result \<and> lerr = err \<and> info_Input info = input"
      "\<forall>txn a. Ev_txnClose txn a \<notin> set evs"
      "\<forall>ev\<in>set evs. start_error ev = None"
    using log_form[of p input result err "tr @ [Ev_stopeval]"] by blast
  from l have "stop p txn input result err evalErr tr =
         (map_option (\<lambda>le. \<lparr> Code = Code_UNKNOWN, Message = Error le \<rparr>) r,
          tr @ [Ev_stopeval] @ evs @ [Ev_txnClose txn (r \<noteq> None \<or> evalErr \<noteq> None)])"
    by (cases r) (auto simp: stop_def txnClose_def)
  with props show ?thesis by blast
qed

text \<open>The five ways in which \<^verbatim>\<open>check\<close> returns.\<close>

lemma check_form:
  "(\<exists>e. check p req tr0 = ((None, noStop, Some e), tr0 @ [Ev_NewEvalResult (Some e)]))
 \<or> (\<exists>e. check p req tr0 = ((None, noStop, Some e), tr0 @ [Ev_NewEvalResult None, Ev_GetTxn (Inl e)]))
 \<or> (\<exists>txn input result err e.
        check p req tr0 = ((None, stop p txn input result err None, Some e),
                           tr0 @ [Ev_NewEvalResult None, Ev_GetTxn (Inr txn)]))
 \<or> (\<exists>txn input result err.
        check p req tr0 = ((None, stop p txn input result (Some err) (Some err), Some err),
                           tr0 @ [Ev_NewEvalResult None, Ev_GetTxn (Inr txn), Ev_Eval (Some err) result]))
 \<or> (\<exists>txn input result err resp e.
        check p req tr0 = ((resp, stop p txn input result err None, e),
                           tr0 @ [Ev_NewEvalResult None, Ev_GetTxn (Inr txn), Ev_Eval None result]))"
  unfolding check_def Let_def
  by (auto split: sum.split option.split prod.split)

text \<open>What a whole call does: \<open>check\<close>, then the closure it returned.\<close>

lemma run_form:
  assumes c: "check p req [] = ((resp, stp, e), tr)" and s: "stp tr = (code, tr')"
  shows "(\<not> acquired tr \<and> resp = None \<and> code = None \<and> tr' = tr \<and> fin_steps tr = [] \<and> tr \<noteq> []
            \<and> (\<exists>err. e = Some err \<and> start_error (last tr) = Some err))
       \<or> (\<exists>txn evs r. acquired tr \<and> fin_steps tr = [] \<and> \<not> logFailed tr
            \<and> tr' = tr @ [Ev_stopeval] @ evs @ [Ev_txnClose txn (r \<noteq> None \<or> evalFailed tr)]
            \<and> code = map_option (\<lambda>le. \<lparr> Code = Code_UNKNOWN, Message = Error le \<rparr>) r
            \<and> fin_steps evs = [Logged] \<and> \<not> acquired evs \<and> \<not> evalFailed evs
            \<and> logFailed evs = (r \<noteq> None)
            \<and> (\<forall>ev\<in>set evs. \<forall>le. log_failure ev = Some le \<longrightarrow> r = Some le)
            \<and> (\<forall>ev\<in>set tr. log_failure ev = None)
            \<and> (\<forall>t a. Ev_txnClose t a \<notin> set evs \<and> Ev_txnClose t a \<notin> set tr))"
  using check_form[of p req "[]"]
proof (elim disjE exE)
  fix err assume "check p req [] = ((None, noStop, Some err), [] @ [Ev_NewEvalResult (Some err)])"
  with c s show ?thesis
    by (auto simp: noStop_def acquired_def fin_steps_Cons fin_steps_Nil)
next
  fix err assume "check p req [] = ((None, noStop, Some err), [] @ [Ev_NewEvalResult None, Ev_GetTxn (Inl err)])"
  with c s show ?thesis
    by (auto simp: noStop_def acquired_def fin_steps_Cons fin_steps_Nil)
next
  fix txn input result err e'
  assume a: "check p req [] = ((None, stop p txn input result err None, Some e'), [] @ [Ev_NewEvalResult None, Ev_GetTxn (Inr txn)])"
  from stop_form[of p txn input result err None tr] a c s show ?thesis
    by (auto simp: acquired_def evalFailed_def logFailed_def fin_steps_Cons fin_steps_Nil)
next
  fix txn input result err
  assume a: "check p req [] = ((None, stop p txn input result (Some err) (Some err), Some err),
                           [] @ [Ev_NewEvalResult None, Ev_GetTxn (Inr txn), Ev_Eval (Some err) result])"
  from stop_form[of p txn input result "Some err" "Some err" tr] a c s show ?thesis
    by (auto simp: acquired_def evalFailed_def logFailed_def fin_steps_Cons fin_steps_Nil)
next
  fix txn input result err resp' e'
  assume a: "check p req [] = ((resp', stop p txn input result err None, e'),
                           [] @ [Ev_NewEvalResult None, Ev_GetTxn (Inr txn), Ev_Eval None result])"
  from stop_form[of p txn input result err None tr] a c s show ?thesis
    by (auto simp: acquired_def evalFailed_def logFailed_def fin_steps_Cons fin_steps_Nil)
qed

lemma Check_run:
  "\<exists>resp stp e tr code tr'. check p req [] = ((resp, stp, e), tr) \<and> stp tr = (code, tr')
     \<and> Check p req = ((case resp of None \<Rightarrow> None
                        | Some r \<Rightarrow> (case code of None \<Rightarrow> Some r | Some c \<Rightarrow> Some (r\<lparr>Status := Some c\<rparr>)), e), tr')"
  by (auto simp: Check_def split: prod.splits)

lemma Check_v2_run:
  "\<exists>resp stp e tr code tr'. check p req [] = ((resp, stp, e), tr) \<and> stp tr = (code, tr')
     \<and> snd (Check_v2 p req) = tr'
     \<and> (\<forall>r2 e2. fst (Check_v2 p req) = Returns (Some r2, e2) \<longrightarrow>
           e = None \<and> e2 = None \<and> (\<exists>r3 r2'. resp = Some r3 \<and> v2Response r3 = Some r2'
             \<and> Status_v2 r2 = (case code of None \<Rightarrow> Status_v2 r2' | Some c \<Rightarrow> Some c)
             \<and> HttpResponse_v2 r2 = HttpResponse_v2 r2'))
     \<and> (e \<noteq> None \<longrightarrow> fst (Check_v2 p req) = Returns (None, e))"
  by (auto simp: Check_v2_def split: prod.splits option.splits)

text \<open>A call that evaluated the policy without error.\<close>

lemma check_after_eval:
  assumes "check p req [] = ((resp, stp, e), tr)" and "Ev_Eval None result \<in> set tr"
  shows "\<exists>txn input err. tr = [Ev_NewEvalResult None, Ev_GetTxn (Inr txn), Ev_Eval None result]
     \<and> stp = stop p txn (Some input) result err None
     \<and> (case shape p result of
           Inl (er, returned) \<Rightarrow> resp = None \<and> e = Some returned \<and> err = er
         | Inr resp0 \<Rightarrow> resp = Some (dryRunOverride p resp0) \<and> e = None \<and> err = None)"
  using assms unfolding check_def Let_def
  by (auto split: sum.splits option.splits prod.splits)

lemma Check_after_eval:
  assumes c: "check p req [] = ((resp, stp, e), tr)" and ev: "Ev_Eval None result \<in> set tr"
  shows "\<exists>evs txn a r err. snd (Check p req) = tr @ [Ev_stopeval] @ evs @ [Ev_txnClose txn a]
      \<and> (\<forall>info res lerr ret. Ev_LogDecision info res lerr ret \<in> set evs \<longrightarrow> res = result \<and> lerr = err)
      \<and> (resp \<noteq> None \<longrightarrow> err = None)
      \<and> logFailed evs = (r \<noteq> None)
      \<and> fst (Check p req) = (case resp of None \<Rightarrow> None
                        | Some x \<Rightarrow> (case r of None \<Rightarrow> Some x
                                      | Some le \<Rightarrow> Some (x\<lparr>Status := Some \<lparr> Code = Code_UNKNOWN, Message = Error le \<rparr>\<rparr>)), e)
      \<and> ((\<forall>nd er. NDBuiltinCache result = Some nd \<longrightarrow> ast_JSON (co p) nd \<noteq> Inl er)
            \<longrightarrow> (\<exists>info ret. Ev_LogDecision info result err ret \<in> set evs))"
proof -
  from check_after_eval[OF c ev] obtain txn input err where
    tr: "tr = [Ev_NewEvalResult None, Ev_GetTxn (Inr txn), Ev_Eval None result]"
    and stp: "stp = stop p txn (Some input) result err None"
    and cs: "case shape p result of
           Inl (er, returned) \<Rightarrow> resp = None \<and> e = Some returned \<and> err = er
         | Inr resp0 \<Rightarrow> resp = Some (dryRunOverride p resp0) \<and> e = None \<and> err = None"
    by blast
  from cs have rn: "resp \<noteq> None \<longrightarrow> err = None"
    by (cases "shape p result") auto
  obtain evs r where
    s: "stop p txn (Some input) result err None tr =
         (map_option (\<lambda>le. \<lparr> Code = Code_UNKNOWN, Message = Error le \<rparr>) r,
          tr @ [Ev_stopeval] @ evs @ [Ev_txnClose txn (r \<noteq> None \<or> (None::error option) \<noteq> None)])"
    and l: "\<forall>info res lerr ret. Ev_LogDecision info res lerr ret \<in> set evs \<longrightarrow> res = result \<and> lerr = err \<and> info_Input info = Some input"
    and lf: "logFailed evs = (r \<noteq> None)"
    using stop_form[of p txn "Some input" result err None tr] by blast
  have ex: "(\<forall>nd er. NDBuiltinCache result = Some nd \<longrightarrow> ast_JSON (co p) nd \<noteq> Inl er)
            \<longrightarrow> (\<exists>info ret. Ev_LogDecision info result err ret \<in> set evs)"
    using s unfolding stop_def log_def Let_def txnClose_def
    by (auto split: option.splits sum.splits prod.splits)
  from c stp s have "Check p req = ((case resp of None \<Rightarrow> None
                        | Some x \<Rightarrow> (case r of None \<Rightarrow> Some x
                                      | Some le \<Rightarrow> Some (x\<lparr>Status := Some \<lparr> Code = Code_UNKNOWN, Message = Error le \<rparr>\<rparr>)), e),
          tr @ [Ev_stopeval] @ evs @ [Ev_txnClose txn (r \<noteq> None)])"
    by (auto simp: Check_def split: option.splits)
  with l lf rn ex show ?thesis
    by (intro exI[of _ evs] exI[of _ txn] exI[of _ "r \<noteq> None"] exI[of _ r] exI[of _ err])
       auto
qed

subsection \<open>Response shaping and the dry-run override\<close>

lemma codes_distinct: "Code_OK \<noteq> Code_PERMISSION_DENIED" "Code_PERMISSION_DENIED \<noteq> Code_OK"
  "Code_UNKNOWN \<noteq> Code_OK"
  by (simp_all add: Code_OK_def Code_PERMISSION_DENIED_def Code_UNKNOWN_def)

lemma shape_allowed:
  assumes "shape p result = Inr resp0"
  obtains allowed where "IsAllowed (co p) result = Inr allowed"
  using assms by (cases "IsAllowed (co p) result") (simp_all add: shape_def)

lemma shape_not_mapping:
  assumes "IsAllowed (co p) result = Inr allowed" and "\<not> isMapping (Decision result)"
  shows "shape p result =
     Inr \<lparr> Status = Some \<lparr> Code = (if allowed then Code_OK else Code_PERMISSION_DENIED),
                              Message = [] \<rparr>,
           HttpResponse = NoHttpResponse, DynamicMetadata = None \<rparr>"
  using assms by (cases "Decision result") (simp_all add: shape_def Let_def)

lemma shape_mapping:
  assumes s: "shape p result = Inr resp0" and a: "IsAllowed (co p) result = Inr allowed"
    and m: "isMapping (Decision result)"
  shows "Status resp0 = Some \<lparr> Code = (if allowed then Code_OK else Code_PERMISSION_DENIED),
                              Message = [] \<rparr>
     \<and> GetDynamicMetadata (co p) result = Inr (DynamicMetadata resp0)
     \<and> (if allowed then (\<exists>ok. HttpResponse resp0 = OkResponse (Some ok))
         else (\<exists>d. HttpResponse resp0 = DeniedResponse (Some d)))"
proof -
  from m obtain mp where d: "Decision result = JObj mp"
    by (cases "Decision result") simp_all
  from s a d obtain hs where h: "GetResponseEnvoyHeaderValueOptions (co p) result = Inr hs"
    by (cases "GetResponseEnvoyHeaderValueOptions (co p) result") (simp_all add: shape_def Let_def)
  from s a d h obtain dm where g: "GetDynamicMetadata (co p) result = Inr dm"
    by (cases "GetDynamicMetadata (co p) result") (simp_all add: shape_def Let_def)
  show ?thesis
  proof (cases allowed)
    case True
    with s a d h g obtain rm where r: "GetRequestHTTPHeadersToRemove (co p) result = Inr rm"
      by (cases "GetRequestHTTPHeadersToRemove (co p) result") (simp_all add: shape_def Let_def)
    with True s a d h g obtain ad where "GetResponseHTTPHeadersToAdd (co p) result = Inr ad"
      by (cases "GetResponseHTTPHeadersToAdd (co p) result") (simp_all add: shape_def Let_def)
    with True r s a d h g show ?thesis
      by (auto simp add: shape_def Let_def)
  next
    case False
    with s a d h g obtain b where r: "GetResponseBody (co p) result = Inr b"
      by (cases "GetResponseBody (co p) result") (simp_all add: shape_def Let_def codes_distinct)
    with False s a d h g obtain st where "GetResponseEnvoyHTTPStatus (co p) result = Inr st"
      by (cases "GetResponseEnvoyHTTPStatus (co p) result") (simp_all add: shape_def Let_def codes_distinct)
    with False r s a d h g show ?thesis
      by (auto simp add: shape_def Let_def codes_distinct)
  qed
qed

lemma dryRunOverride_forced:
  assumes "DryRun (cfg p)" "Status resp0 = Some st" "Code st \<noteq> Code_OK"
  shows "dryRunOverride p resp0 =
           resp0\<lparr>Status := Some \<lparr> Code = Code_OK, Message = [] \<rparr>,
                 HttpResponse := OkResponse (Some emptyOk)\<rparr>"
  using assms by (simp add: dryRunOverride_def emptyOk_def)

lemma dryRunOverride_kept:
  assumes "\<not> DryRun (cfg p) \<or> (\<exists>st. Status resp0 = Some st \<and> Code st = Code_OK)"
  shows "dryRunOverride p resp0 = resp0"
  using assms by (auto simp: dryRunOverride_def)

subsection \<open>Finalisation\<close>

text \<open>
  C1, as amended. For every call that returns a response, on the v3 service and on the
  v2 service: when the audit-log emission of its finalisation failed with an error, the
  status of the returned response is the code UNKNOWN with that error's text as its
  message, whatever status the decision produced. (A call that returns no response
  returns its own error, and no status.)
\<close>

theorem Check_status_on_log_failure:
  "(fst (Check p req) = (Some r, e) \<and> ev \<in> set (snd (Check p req)) \<and> log_failure ev = Some le
      \<longrightarrow> Status r = Some \<lparr> Code = Code_UNKNOWN, Message = Error le \<rparr>)
 \<and> (fst (Check_v2 p req) = Returns (Some r2, e2) \<and> ev2 \<in> set (snd (Check_v2 p req))
      \<and> log_failure ev2 = Some le2
      \<longrightarrow> Status_v2 r2 = Some \<lparr> Code = Code_UNKNOWN, Message = Error le2 \<rparr>)"
proof (intro conjI impI)
  assume a: "fst (Check p req) = (Some r, e) \<and> ev \<in> set (snd (Check p req)) \<and> log_failure ev = Some le"
  obtain resp stp e' tr code tr' where c: "check p req [] = ((resp, stp, e'), tr)" "stp tr = (code, tr')"
     and C: "Check p req = ((case resp of None \<Rightarrow> None
                        | Some r \<Rightarrow> (case code of None \<Rightarrow> Some r | Some c \<Rightarrow> Some (r\<lparr>Status := Some c\<rparr>)), e'), tr')"
    using Check_run[of p req] by blast
  from run_form[OF c] a C show "Status r = Some \<lparr> Code = Code_UNKNOWN, Message = Error le \<rparr>"
    by (auto split: option.splits)
next
  assume a: "fst (Check_v2 p req) = Returns (Some r2, e2) \<and> ev2 \<in> set (snd (Check_v2 p req))
      \<and> log_failure ev2 = Some le2"
  obtain resp stp e' tr code tr' where c: "check p req [] = ((resp, stp, e'), tr)" "stp tr = (code, tr')"
     and C: "snd (Check_v2 p req) = tr'"
      "\<forall>r2 e2. fst (Check_v2 p req) = Returns (Some r2, e2) \<longrightarrow>
           e' = None \<and> e2 = None \<and> (\<exists>r3 r2'. resp = Some r3 \<and> v2Response r3 = Some r2'
             \<and> Status_v2 r2 = (case code of None \<Rightarrow> Status_v2 r2' | Some c \<Rightarrow> Some c)
             \<and> HttpResponse_v2 r2 = HttpResponse_v2 r2')"
    using Check_v2_run[of p req] by blast
  from run_form[OF c] a C show "Status_v2 r2 = Some \<lparr> Code = Code_UNKNOWN, Message = Error le2 \<rparr>"
    by (auto split: option.splits)
qed

text \<open>
  A call whose decision is a plain allow and whose decision logger fails: both services
  return the status UNKNOWN with the logger's message.
\<close>

theorem Check_status_on_log_failure_witness:
  "(fst (Check (ex_server False (JBool True) None (Some (Err ''sink down''))) JNull)
      = (Some \<lparr> Status = Some \<lparr> Code = Code_UNKNOWN, Message = ''sink down'' \<rparr>,
                HttpResponse = NoHttpResponse, DynamicMetadata = None \<rparr>, None)
    \<and> Ev_LogDecision ex_info (ex_result (JBool True)) None (Some (Err ''sink down''))
        \<in> set (snd (Check (ex_server False (JBool True) None (Some (Err ''sink down''))) JNull))
    \<and> log_failure (Ev_LogDecision ex_info (ex_result (JBool True)) None (Some (Err ''sink down'')))
        = Some (Err ''sink down''))
 \<and> (fst (Check_v2 (ex_server False (JBool True) None (Some (Err ''sink down''))) JNull)
      = Returns (Some \<lparr> Status_v2 = Some \<lparr> Code = Code_UNKNOWN, Message = ''sink down'' \<rparr>,
                         HttpResponse_v2 = NoHttpResponse_v2 \<rparr>, None)
    \<and> Ev_LogDecision ex_info (ex_result (JBool True)) None (Some (Err ''sink down''))
        \<in> set (snd (Check_v2 (ex_server False (JBool True) None (Some (Err ''sink down''))) JNull)))
 \<and> Status \<lparr> Status = Some \<lparr> Code = Code_UNKNOWN, Message = ''sink down'' \<rparr>,
             HttpResponse = NoHttpResponse, DynamicMetadata = None \<rparr>
      = Some \<lparr> Code = Code_UNKNOWN, Message = Error (Err ''sink down'') \<rparr>
 \<and> Status_v2 \<lparr> Status_v2 = Some \<lparr> Code = Code_UNKNOWN, Message = ''sink down'' \<rparr>,
                HttpResponse_v2 = NoHttpResponse_v2 \<rparr>
      = Some \<lparr> Code = Code_UNKNOWN, Message = Error (Err ''sink down'') \<rparr>"
  (is "?h1 \<and> ?h2 \<and> ?c1 \<and> ?c2")
proof -
  have h1: ?h1 by code_simp
  have h2: ?h2 by code_simp
  have l: "log_failure (Ev_LogDecision ex_info (ex_result (JBool True)) None (Some (Err ''sink down'')))
        = Some (Err ''sink down'')" by simp
  from h1 h2 l
    Check_status_on_log_failure[where p = "ex_server False (JBool True) None (Some (Err ''sink down''))"
      and req = JNull
      and r = "\<lparr> Status = Some \<lparr> Code = Code_UNKNOWN, Message = ''sink down'' \<rparr>,
                HttpResponse = NoHttpResponse, DynamicMetadata = None \<rparr>"
      and e = None
      and ev = "Ev_LogDecision ex_info (ex_result (JBool True)) None (Some (Err ''sink down''))"
      and le = "Err ''sink down''"
      and ?r2.0 = "\<lparr> Status_v2 = Some \<lparr> Code = Code_UNKNOWN, Message = ''sink down'' \<rparr>,
                         HttpResponse_v2 = NoHttpResponse_v2 \<rparr>"
      and ?e2.0 = None
      and ?ev2.0 = "Ev_LogDecision ex_info (ex_result (JBool True)) None (Some (Err ''sink down''))"
      and ?le2.0 = "Err ''sink down''"]
  have "?c1 \<and> ?c2" by blast
  with h1 h2 show ?thesis by blast
qed

text \<open>
  Without the restriction to calls that return a response the statement fails: when the
  evaluation fails and the decision logger fails too, the call returns no response, and
  its error is the evaluation's, not the logger's.
\<close>

theorem Check_no_status_without_response:
  "fst (Check (ex_server False (JBool False) (Some (Err ''eval failed'')) (Some (Err ''sink down''))) JNull)
     = (None, Some (Err ''eval failed''))
 \<and> snd (Check (ex_server False (JBool False) (Some (Err ''eval failed'')) (Some (Err ''sink down''))) JNull) ! 4
     = Ev_LogDecision ex_info
         \<lparr> DecisionID = ''id-1'', TxnID = 0, Decision = JNull, Txn = Some 1, NDBuiltinCache = None \<rparr>
         (Some (Err ''eval failed'')) (Some (Err ''sink down''))"
  by code_simp






subsection \<open>Dry run\<close>



text \<open>
  C9. When the dry-run override fires, the returned response is the shaped response
  with its status and its HTTP response replaced and nothing else: the dynamic metadata
  is the shaped one, which for a mapping decision is what \<^verbatim>\<open>GetDynamicMetadata\<close>
  extracted, and it is still there in the response of the service.
\<close>

theorem dryRun_keeps_dynamic_metadata:
  assumes dry: "DryRun (cfg p)"
    and c: "check p req [] = ((resp, stp, e), tr)"
    and ev: "Ev_Eval None result \<in> set tr"
    and sh: "shape p result = Inr resp0"
    and st: "Status resp0 = Some st" "Code st \<noteq> Code_OK"
  shows "\<exists>r. resp = Some r
       \<and> r = resp0\<lparr>Status := Some \<lparr> Code = Code_OK, Message = [] \<rparr>,
                    HttpResponse := OkResponse (Some emptyOk)\<rparr>
       \<and> DynamicMetadata r = DynamicMetadata resp0
       \<and> (isMapping (Decision result)
            \<longrightarrow> GetDynamicMetadata (co p) result = Inr (DynamicMetadata r))
       \<and> (\<forall>r' e'. fst (Check p req) = (Some r', e')
            \<longrightarrow> DynamicMetadata r' = DynamicMetadata resp0)"
proof -
  from check_after_eval[OF c ev] sh
  have r: "resp = Some (dryRunOverride p resp0)" and e: "e = None"
    by auto
  let ?r = "resp0\<lparr>Status := Some \<lparr> Code = Code_OK, Message = [] \<rparr>,
                    HttpResponse := OkResponse (Some emptyOk)\<rparr>"
  from r dryRunOverride_forced[OF dry st] have 1: "resp = Some ?r" by simp
  from sh obtain allowed where a: "IsAllowed (co p) result = Inr allowed"
    by (rule shape_allowed)
  have 3: "isMapping (Decision result)
            \<longrightarrow> GetDynamicMetadata (co p) result = Inr (DynamicMetadata ?r)"
    using shape_mapping[OF sh a] by simp
  obtain evs txn a' rr err where
    f: "fst (Check p req) = (case resp of None \<Rightarrow> None
                        | Some x \<Rightarrow> (case rr of None \<Rightarrow> Some x
                                      | Some le \<Rightarrow> Some (x\<lparr>Status := Some \<lparr> Code = Code_UNKNOWN, Message = Error le \<rparr>\<rparr>)), e)"
    using Check_after_eval[OF c ev] by blast
  have 4: "\<forall>r' e'. fst (Check p req) = (Some r', e')
            \<longrightarrow> DynamicMetadata r' = DynamicMetadata resp0"
    using f 1 by (cases rr) auto
  from 1 3 4 show ?thesis by simp
qed

text \<open>The same dry-run call: its dynamic metadata reaches the caller.\<close>

theorem dryRun_keeps_dynamic_metadata_witness:
  "DryRun (cfg (ex_server True ex_denyMap None None))
 \<and> Ev_Eval None (ex_result ex_denyMap)
     \<in> set (snd (check (ex_server True ex_denyMap None None) JNull []))
 \<and> shape (ex_server True ex_denyMap None None) (ex_result ex_denyMap) = Inr ex_denyResponse
 \<and> Status ex_denyResponse = Some \<lparr> Code = Code_PERMISSION_DENIED, Message = [] \<rparr>
 \<and> Code \<lparr> Code = Code_PERMISSION_DENIED, Message = [] \<rparr> \<noteq> Code_OK
 \<and> isMapping (Decision (ex_result ex_denyMap))
 \<and> (\<exists>r. fst (fst (check (ex_server True ex_denyMap None None) JNull [])) = Some r
       \<and> DynamicMetadata r = Some (JStr ''md'')
       \<and> GetDynamicMetadata (co (ex_server True ex_denyMap None None)) (ex_result ex_denyMap)
           = Inr (DynamicMetadata r))"
proof -
  let ?p = "ex_server True ex_denyMap None None"
  have d: "DryRun (cfg ?p)" by code_simp
  have c: "check ?p JNull [] =
      ((fst (fst (check ?p JNull [])), fst (snd (fst (check ?p JNull []))),
        snd (snd (fst (check ?p JNull [])))), snd (check ?p JNull []))"
    by simp
  have ev: "Ev_Eval None (ex_result ex_denyMap) \<in> set (snd (check ?p JNull []))"
    by code_simp
  have sh: "shape ?p (ex_result ex_denyMap) = Inr ex_denyResponse"
    by code_simp
  have st: "Status ex_denyResponse = Some \<lparr> Code = Code_PERMISSION_DENIED, Message = [] \<rparr>"
    "Code \<lparr> Code = Code_PERMISSION_DENIED, Message = [] \<rparr> \<noteq> Code_OK"
    by code_simp+
  have m: "isMapping (Decision (ex_result ex_denyMap))" by code_simp
  have dm: "DynamicMetadata ex_denyResponse = Some (JStr ''md'')" by code_simp
  from dryRun_keeps_dynamic_metadata[OF d c ev sh st] m dm
  have "\<exists>r. fst (fst (check ?p JNull [])) = Some r
       \<and> DynamicMetadata r = Some (JStr ''md'')
       \<and> GetDynamicMetadata (co ?p) (ex_result ex_denyMap) = Inr (DynamicMetadata r)"
    by auto
  with d ev sh st m show ?thesis by blast
qed

subsection \<open>Response shaping\<close>

text \<open>
  C5, as amended. For every call that returns a response: the response, before the
  dry-run override, has the base status code derived from the allow bit, OK or
  \<^verbatim>\<open>PERMISSION_DENIED\<close>. For a mapping decision it has exactly one branch, the allow
  branch when allowed and the deny branch otherwise; for any other decision it has
  neither.
\<close>

theorem one_branch_for_mapping_decisions:
  assumes c: "check p req [] = ((Some r, stp, e), tr)"
    and ev: "Ev_Eval None result \<in> set tr"
  shows "\<exists>resp0 allowed.
           shape p result = Inr resp0 \<and> r = dryRunOverride p resp0
         \<and> IsAllowed (co p) result = Inr allowed
         \<and> Status resp0 = Some \<lparr> Code = (if allowed then Code_OK else Code_PERMISSION_DENIED),
                                  Message = [] \<rparr>
         \<and> (if isMapping (Decision result)
             then (if allowed then (\<exists>ok. HttpResponse resp0 = OkResponse (Some ok))
                   else (\<exists>d. HttpResponse resp0 = DeniedResponse (Some d)))
             else HttpResponse resp0 = NoHttpResponse)"
proof -
  from check_after_eval[OF c ev] obtain resp0 where
    sh: "shape p result = Inr resp0" and r: "r = dryRunOverride p resp0"
    by (cases "shape p result") auto
  from sh obtain allowed where a: "IsAllowed (co p) result = Inr allowed"
    by (rule shape_allowed)
  show ?thesis
  proof (cases "isMapping (Decision result)")
    case True
    from shape_mapping[OF sh a True] sh r a True show ?thesis by auto
  next
    case False
    from shape_not_mapping[OF a False] sh r a False show ?thesis by auto
  qed
qed

text \<open>The denying mapping, without dry-run: the deny branch and no other.\<close>

theorem one_branch_for_mapping_decisions_witness:
  "Ev_Eval None (ex_result ex_denyMap)
     \<in> set (snd (check (ex_server False ex_denyMap None None) JNull []))
 \<and> fst (fst (check (ex_server False ex_denyMap None None) JNull [])) = Some ex_denyResponse
 \<and> isMapping (Decision (ex_result ex_denyMap))
 \<and> IsAllowed (co (ex_server False ex_denyMap None None)) (ex_result ex_denyMap) = Inr False
 \<and> (\<exists>resp0. shape (ex_server False ex_denyMap None None) (ex_result ex_denyMap) = Inr resp0
       \<and> ex_denyResponse = dryRunOverride (ex_server False ex_denyMap None None) resp0
       \<and> Status resp0 = Some \<lparr> Code = Code_PERMISSION_DENIED, Message = [] \<rparr>
       \<and> (\<exists>d. HttpResponse resp0 = DeniedResponse (Some d)))"
proof -
  let ?p = "ex_server False ex_denyMap None None"
  have r: "fst (fst (check ?p JNull [])) = Some ex_denyResponse" by code_simp
  then have c: "check ?p JNull [] =
      ((Some ex_denyResponse, fst (snd (fst (check ?p JNull []))),
        snd (snd (fst (check ?p JNull [])))), snd (check ?p JNull []))"
    by (metis prod.collapse)
  have ev: "Ev_Eval None (ex_result ex_denyMap) \<in> set (snd (check ?p JNull []))"
    by code_simp
  have m: "isMapping (Decision (ex_result ex_denyMap))" by code_simp
  have a: "IsAllowed (co ?p) (ex_result ex_denyMap) = Inr False" by code_simp
  from one_branch_for_mapping_decisions[OF c ev] m a
  have "\<exists>resp0. shape ?p (ex_result ex_denyMap) = Inr resp0
       \<and> ex_denyResponse = dryRunOverride ?p resp0
       \<and> Status resp0 = Some \<lparr> Code = Code_PERMISSION_DENIED, Message = [] \<rparr>
       \<and> (\<exists>d. HttpResponse resp0 = DeniedResponse (Some d))"
    by auto
  with r ev m a show ?thesis by blast
qed

text \<open>
  For every decision value the statement fails: a plain boolean decision, without
  dry-run, gives a response with neither branch.
\<close>

theorem non_mapping_decision_without_branch:
  "fst (Check (ex_server False (JBool True) None None) JNull)
     = (Some \<lparr> Status = Some \<lparr> Code = Code_OK, Message = [] \<rparr>,
               HttpResponse = NoHttpResponse, DynamicMetadata = None \<rparr>, None)
 \<and> shape (ex_server False (JBool True) None None) (ex_result (JBool True))
     = Inr \<lparr> Status = Some \<lparr> Code = Code_OK, Message = [] \<rparr>,
             HttpResponse = NoHttpResponse, DynamicMetadata = None \<rparr>
 \<and> \<not> DryRun (cfg (ex_server False (JBool True) None None))"
  by code_simp




end
